theory Spec2Isabelle
  imports Complex_Main
begin

section \<open>Settlement core of the bank API\<close>

text \<open>
  A shallow embedding of the ledger methods of \<^verbatim>\<open>src/models/account.model.js\<close>, of the
  transaction document of \<^verbatim>\<open>models/transaction.model.js\<close> and of the three settlement
  routes and the two signature helpers of \<^verbatim>\<open>routes/transaction.routes.js\<close>.

  Conventions.
  \<^item> A JavaScript \<^verbatim>\<open>Number\<close> is a finite IEEE-754 double, held as the rational it
    denotes (\<^typ>\<open>rat\<close>); \<^verbatim>\<open>+\<close> and \<^verbatim>\<open>-\<close> round the exact result to the nearest
    double. The amount of a request is a JSON number: a request whose amount member is
    another JSON value (a string, say) is not a value of the request types below.
  \<^item> A Mongoose document is a record; a collection is a finite map from the schema's
    unique key to the stored document. A route handler works on the in-memory copy that
    \<^verbatim>\<open>findOne\<close> returned; \<^verbatim>\<open>save()\<close> writes the copy back.
  \<^item> An \<^verbatim>\<open>async\<close> method that mutates \<^verbatim>\<open>this\<close> and may reject returns a triple: the outcome
    (\<open>Inl\<close> the thrown error), the in-memory document after the call, and the world after
    the call.
  \<^item> Every awaited \<^verbatim>\<open>save()\<close> takes a flag that says whether the database accepted the
    write; a handler reads the flag of each call site from its environment.
  \<^item> Fields of the two persisted schemas keep their source names, except that the
    account's \<^verbatim>\<open>currency\<close> and \<^verbatim>\<open>description\<close> are \<open>acct_currency\<close> and
    \<open>acct_description\<close>. Fields of the signed payload are prefixed \<open>pl_\<close>, fields of the
    three request bodies \<open>ib_\<close> (internal), \<open>eb_\<close> (external) and \<open>in_\<close> (incoming).
\<close>

subsection \<open>Errors\<close>

datatype error =
    Error string                \<comment> \<open>\<^verbatim>\<open>new Error(message)\<close>\<close>
  | ValidationError string      \<comment> \<open>Mongoose schema validation on \<^verbatim>\<open>save()\<close>\<close>
  | StorageError                \<comment> \<open>the database rejected or never acknowledged a write\<close>
  | DuplicateKey                \<comment> \<open>unique index violated on insert\<close>
  | TypeError                   \<comment> \<open>property read on \<^verbatim>\<open>undefined\<close>\<close>
  | FetchError                  \<comment> \<open>\<^verbatim>\<open>fetch\<close> rejected: no HTTP response\<close>
  | SyntaxError                 \<comment> \<open>\<^verbatim>\<open>response.json()\<close> on a body that is not JSON\<close>
  | JsonWebTokenError string    \<comment> \<open>thrown by \<^verbatim>\<open>jwt.verify\<close>\<close>

subsection \<open>JavaScript numbers\<close>

text \<open>
  Round to nearest, ties to even, in binary64. \<open>binade n x 0\<close> is the exponent \<open>e\<close> with
  \<open>2 ^ e \<le> x < 2 ^ (e + 1)\<close> of a positive \<open>x\<close>, found by halving or doubling at most \<open>n\<close>
  times; 2200 steps cover every double. The unit in the last place of a double in that
  binade is \<open>2 ^ (e - 52)\<close>, and \<open>2 ^ (- 1074)\<close> for the subnormal ones. \<open>to_double x\<close> is
  the multiple of that unit nearest to \<open>x\<close>, the even multiple when two are equally near.
  Overflow to \<^verbatim>\<open>Infinity\<close> (from about \<open>1.8e308\<close>), \<^verbatim>\<open>NaN\<close> and the sign of zero are not
  modelled.
\<close>

definition pow2 :: "int \<Rightarrow> rat" where
  "pow2 k = (if 0 \<le> k then 2 ^ nat k else 1 / 2 ^ nat (- k))"

definition round_half_even :: "rat \<Rightarrow> int" where
  "round_half_even x =
     (let f = \<lfloor>x\<rfloor>; d = x - of_int f in
      if d < 1 / 2 then f else if 1 / 2 < d then f + 1 else if even f then f else f + 1)"

fun binade :: "nat \<Rightarrow> rat \<Rightarrow> int \<Rightarrow> int" where
  "binade 0 x e = e"
| "binade (Suc n) x e =
     (if 2 \<le> x then binade n (x / 2) (e + 1)
      else if x < 1 then binade n (x * 2) (e - 1)
      else e)"

definition to_double :: "rat \<Rightarrow> rat" where
  "to_double x =
     (if x = 0 then 0
      else
        let e = binade 2200 \<bar>x\<bar> 0; u = max (e - 52) (- 1074)
        in of_int (round_half_even (x / pow2 u)) * pow2 u)"

text \<open>\<^verbatim>\<open>a + b\<close> and \<^verbatim>\<open>a - b\<close> on Numbers.\<close>

definition js_add :: "rat \<Rightarrow> rat \<Rightarrow> rat" where
  "js_add a b = to_double (a + b)"

definition js_sub :: "rat \<Rightarrow> rat \<Rightarrow> rat" where
  "js_sub a b = to_double (a - b)"

subsection \<open>JSON Web Tokens, symbolically\<close>

text \<open>
  The \<^verbatim>\<open>jsonwebtoken\<close> library is modelled with perfect cryptography. A key pair is a
  number; a PEM file either holds the key of a pair or is malformed. A signature string
  either is no token at all, or is a token that records its algorithm, the claims it was
  made over and the pair whose private key made it.
\<close>

datatype pem = BadPem | Pem nat

datatype jalg = RS256 | HS256

record payload =
  pl_transactionId :: string
  pl_fromBank :: string
  pl_fromAccount :: string
  pl_toBank :: string
  pl_toAccount :: string
  pl_amount :: rat
  pl_currency :: string
  pl_description :: string
  pl_timestamp :: string

datatype jws = Garbage | JWS jalg payload nat

definition jwt_sign :: "payload \<Rightarrow> pem \<Rightarrow> jalg \<Rightarrow> error + jws" where
  "jwt_sign claims key alg =
     (case key of
        BadPem \<Rightarrow> Inl (Error ''secretOrPrivateKey must be an asymmetric key'')
      | Pem k \<Rightarrow> Inr (JWS alg claims k))"

definition jwt_verify :: "jws \<Rightarrow> pem option \<Rightarrow> jalg list \<Rightarrow> error + payload" where
  "jwt_verify token key algorithms =
     (case token of
        Garbage \<Rightarrow> Inl (JsonWebTokenError ''jwt malformed'')
      | JWS alg claims signer \<Rightarrow>
          (case key of
             None \<Rightarrow> Inl (JsonWebTokenError ''secret or public key must be provided'')
           | Some BadPem \<Rightarrow> Inl (JsonWebTokenError ''invalid key'')
           | Some (Pem k) \<Rightarrow>
               if alg \<notin> set algorithms then Inl (JsonWebTokenError ''invalid algorithm'')
               else if signer = k then Inr claims
               else Inl (JsonWebTokenError ''invalid signature'')))"

subsection \<open>Documents\<close>

record account =
  accountNumber :: string
  user :: string
  accountType :: string
  acct_currency :: string
  balance :: rat
  isActive :: bool
  acct_description :: string

datatype status = PENDING | IN_PROGRESS | COMPLETED | FAILED

text \<open>\<open>isNew\<close> is Mongoose's own flag of a document that was never saved: \<^verbatim>\<open>save()\<close>
  inserts such a document and updates any other.\<close>

record transaction =
  transactionId :: string
  fromAccount :: string
  toAccount :: string
  fromBank :: string
  toBank :: string
  amount :: rat
  currency :: string
  description :: string
  status :: status
  errorCode :: "string option"
  errorMessage :: "string option"
  isInternal :: bool
  signature :: "jws option"
  initiatedBy :: string
  isNew :: bool

subsection \<open>The world: two collections and the log of input/output\<close>

datatype effect =
    AccountSaved string rat         \<comment> \<open>account number and the balance written\<close>
  | TransactionSaved transaction    \<comment> \<open>the document as written\<close>
  | RelayPost payload jws           \<comment> \<open>the signed payload posted to the central bank\<close>

record world =
  accounts :: "string \<rightharpoonup> account"
  transactions :: "string \<rightharpoonup> transaction"
  io_log :: "effect list"

subsection \<open>Ledger: \<^verbatim>\<open>account.model.js\<close>\<close>

text \<open>The schema validates the modified path \<^verbatim>\<open>balance\<close> (\<^verbatim>\<open>min: 0\<close>) before the write
  is sent. The amount handed to \<open>credit\<close> and \<open>debit\<close> is a Number, on which \<^verbatim>\<open>+=\<close> and
  \<^verbatim>\<open>-=\<close> are the rounded sum and difference; \<^verbatim>\<open>+=\<close> with a string operand, which
  concatenates, is outside these definitions.\<close>

definition save_account :: "bool \<Rightarrow> account \<Rightarrow> world \<Rightarrow> error + world" where
  "save_account accepted this w =
     (if balance this < 0 then Inl (ValidationError ''Balance cannot be negative'')
      else if \<not> accepted then Inl StorageError
      else Inr (w\<lparr>accounts := (accounts w)(accountNumber this \<mapsto> this),
                  io_log := io_log w @ [AccountSaved (accountNumber this) (balance this)]\<rparr>))"

definition hasSufficientFunds :: "account \<Rightarrow> rat \<Rightarrow> bool" where
  "hasSufficientFunds this amt = (balance this \<ge> amt)"

definition credit :: "bool \<Rightarrow> account \<Rightarrow> rat \<Rightarrow> world \<Rightarrow> (error + unit) \<times> account \<times> world" where
  "credit accepted this amt w =
     (if amt \<le> 0 then (Inl (Error ''Credit amount must be positive''), this, w)
      else
        let this' = this\<lparr>balance := js_add (balance this) amt\<rparr> in
        (case save_account accepted this' w of
           Inl e \<Rightarrow> (Inl e, this', w)
         | Inr w' \<Rightarrow> (Inr (), this', w')))"

definition debit :: "bool \<Rightarrow> account \<Rightarrow> rat \<Rightarrow> world \<Rightarrow> (error + unit) \<times> account \<times> world" where
  "debit accepted this amt w =
     (if amt \<le> 0 then (Inl (Error ''Debit amount must be positive''), this, w)
      else if \<not> hasSufficientFunds this amt then (Inl (Error ''Insufficient funds''), this, w)
      else
        let this' = this\<lparr>balance := js_sub (balance this) amt\<rparr> in
        (case save_account accepted this' w of
           Inl e \<Rightarrow> (Inl e, this', w)
         | Inr w' \<Rightarrow> (Inr (), this', w')))"

subsection \<open>Transaction record: \<^verbatim>\<open>transaction.model.js\<close>\<close>

text \<open>\<^verbatim>\<open>new Transaction({...})\<close> with the schema's defaults: status \<^verbatim>\<open>PENDING\<close>, no error
  code or message. The identifier is \<^verbatim>\<open>uuidv4()\<close> unless the caller supplies one; either
  way it is an argument here.\<close>

definition new_Transaction ::
  "string \<Rightarrow> string \<Rightarrow> string \<Rightarrow> string \<Rightarrow> string \<Rightarrow> rat \<Rightarrow> string \<Rightarrow> string \<Rightarrow> bool \<Rightarrow>
     jws option \<Rightarrow> string \<Rightarrow> transaction" where
  "new_Transaction tid fromAcc toAcc fromB toB amt cur descr internal sig initiator =
     \<lparr>transactionId = tid, fromAccount = fromAcc, toAccount = toAcc, fromBank = fromB,
      toBank = toB, amount = amt, currency = cur, description = descr, status = PENDING,
      errorCode = None, errorMessage = None, isInternal = internal, signature = sig,
      initiatedBy = initiator, isNew = True\<rparr>"

text \<open>The schema's validators: \<^verbatim>\<open>required\<close> strings are non-empty, the amount lies
  between the Numbers \<^verbatim>\<open>0.01\<close> and \<^verbatim>\<open>1000000\<close>, the currency is one of the enumeration. (\<open>status\<close> is in its
  enumeration by type; \<open>initiatedBy\<close> is always copied from a stored document.)\<close>

definition validate_transaction :: "transaction \<Rightarrow> bool" where
  "validate_transaction t =
     (transactionId t \<noteq> [] \<and> fromAccount t \<noteq> [] \<and> toAccount t \<noteq> [] \<and>
      fromBank t \<noteq> [] \<and> toBank t \<noteq> [] \<and>
      to_double (1 / 100) \<le> amount t \<and> amount t \<le> 1000000 \<and>
      currency t \<in> set [''EUR'', ''USD'', ''GBP''])"

definition save_transaction ::
  "bool \<Rightarrow> transaction \<Rightarrow> world \<Rightarrow> (error + unit) \<times> transaction \<times> world" where
  "save_transaction accepted this w =
     (if \<not> validate_transaction this
        then (Inl (ValidationError ''Transaction validation failed''), this, w)
      else if \<not> accepted then (Inl StorageError, this, w)
      else if isNew this \<and> transactions w (transactionId this) \<noteq> None
        then (Inl DuplicateKey, this, w)
      else
        let this' = this\<lparr>isNew := False\<rparr> in
        (Inr (), this',
         w\<lparr>transactions := (transactions w)(transactionId this \<mapsto> this'),
           io_log := io_log w @ [TransactionSaved this']\<rparr>))"

definition updateStatus ::
  "bool \<Rightarrow> transaction \<Rightarrow> status \<Rightarrow> string option \<Rightarrow> string option \<Rightarrow> world \<Rightarrow>
     (error + unit) \<times> transaction \<times> world" where
  "updateStatus accepted this st code msg w =
     save_transaction accepted (this\<lparr>status := st, errorCode := code, errorMessage := msg\<rparr>) w"

definition markCompleted ::
  "bool \<Rightarrow> transaction \<Rightarrow> world \<Rightarrow> (error + unit) \<times> transaction \<times> world" where
  "markCompleted accepted this w = updateStatus accepted this COMPLETED None None w"

definition markFailed ::
  "bool \<Rightarrow> transaction \<Rightarrow> string \<Rightarrow> string \<Rightarrow> world \<Rightarrow>
     (error + unit) \<times> transaction \<times> world" where
  "markFailed accepted this code msg w = updateStatus accepted this FAILED (Some code) (Some msg) w"

definition markInProgress ::
  "bool \<Rightarrow> transaction \<Rightarrow> world \<Rightarrow> (error + unit) \<times> transaction \<times> world" where
  "markInProgress accepted this w = updateStatus accepted this IN_PROGRESS None None w"

subsection \<open>Environment of a request\<close>

text \<open>The call sites of an awaited write, one per \<^verbatim>\<open>await\<close> of the three routes.\<close>

datatype site =
    Internal_debit | Internal_credit | Internal_markCompleted
  | External_save | External_markInProgress | External_debit
  | External_rejected_credit | External_rejected_markFailed
  | External_catch_credit | External_catch_markFailed
  | Incoming_credit | Incoming_markCompleted

text \<open>What the central bank's key directory answers to
  \<^verbatim>\<open>GET /api/v1/banks/:bank/publicKey\<close>, and what its relay answers to
  \<^verbatim>\<open>POST /api/v1/transactions\<close>.\<close>

datatype key_body = KeyNotJson | KeyJson "pem option"

datatype key_response = KeyUnreachable | KeyHttp bool key_body

datatype relay_body = BodyNotJson | BodyJson "(string \<times> string) option"

datatype relay_response = RelayUnreachable | RelayHttp nat relay_body

text \<open>\<^verbatim>\<open>process.env\<close>, the two key files (\<open>None\<close>: the file does not exist), the network
  and the database as one request sees them.\<close>

record env =
  BANK_PREFIX :: string
  CENTRAL_BANK_URL :: "string option"
  PRIVATE_KEY :: "pem option"
  PUBLIC_KEY :: "pem option"
  key_directory :: "string \<Rightarrow> key_response"
  relay :: "payload \<Rightarrow> jws \<Rightarrow> relay_response"
  db_accepts :: "site \<Rightarrow> bool"

subsection \<open>Signature helpers: \<^verbatim>\<open>signTransaction\<close>, \<^verbatim>\<open>verifySignature\<close>\<close>

definition signTransaction :: "env \<Rightarrow> payload \<Rightarrow> error + jws" where
  "signTransaction e pl =
     (case PRIVATE_KEY e of
        None \<Rightarrow> Inl (Error ''Private key not found'')
      | Some privateKey \<Rightarrow> jwt_sign pl privateKey RS256)"

text \<open>The body of the \<^verbatim>\<open>try\<close> block of \<^verbatim>\<open>verifySignature\<close>. The parameter \<open>pl\<close> is the
  function's first parameter \<^verbatim>\<open>payload\<close>; the body never reads it.\<close>

definition verifySignature_try :: "env \<Rightarrow> payload \<Rightarrow> jws \<Rightarrow> string \<Rightarrow> error + bool" where
  "verifySignature_try e pl sig fromB =
     (if fromB = BANK_PREFIX e then
        (case PUBLIC_KEY e of
           None \<Rightarrow> Inl (Error ''Public key not found'')
         | Some publicKey \<Rightarrow>
             (case jwt_verify sig (Some publicKey) [RS256] of
                Inl err \<Rightarrow> Inl err
              | Inr decoded \<Rightarrow> Inr True))
      else
        (case CENTRAL_BANK_URL e of
           None \<Rightarrow> Inl TypeError
         | Some centralBankUrl \<Rightarrow>
             (case key_directory e fromB of
                KeyUnreachable \<Rightarrow> Inl FetchError
              | KeyHttp ok body \<Rightarrow>
                  if \<not> ok then Inl (Error ''Failed to fetch public key for bank'')
                  else
                    (case body of
                       KeyNotJson \<Rightarrow> Inl SyntaxError
                     | KeyJson publicKey \<Rightarrow>
                         (case jwt_verify sig publicKey [RS256] of
                            Inl err \<Rightarrow> Inl err
                          | Inr decoded \<Rightarrow> Inr True)))))"

text \<open>The \<^verbatim>\<open>catch\<close> turns every error into \<^verbatim>\<open>false\<close>. The result type keeps the
  possibility of a rejection, so that its absence is a theorem.\<close>

definition verifySignature :: "env \<Rightarrow> payload \<Rightarrow> jws \<Rightarrow> string \<Rightarrow> error + bool" where
  "verifySignature e pl sig fromB =
     (case verifySignature_try e pl sig fromB of
        Inl err \<Rightarrow> Inr False
      | Inr b \<Rightarrow> Inr b)"

subsection \<open>Requests and responses\<close>

text \<open>\<open>Json c b\<close> is \<^verbatim>\<open>res.status(c).json(b)\<close>; \<open>Next err\<close> is \<^verbatim>\<open>next(err)\<close>, the hand-over to
  the framework's error handler.\<close>

datatype body =
    ErrorBody string string "string option"  \<comment> \<open>\<^verbatim>\<open>{error: {code, message, transactionId?}}\<close>\<close>
  | InternalDone string transaction          \<comment> \<open>\<^verbatim>\<open>{message, transaction}\<close>\<close>
  | ExternalDone string transaction relay_body
      \<comment> \<open>\<^verbatim>\<open>{message, transaction, centralBankResponse}\<close>\<close>
  | IncomingDone string string status        \<comment> \<open>\<^verbatim>\<open>{message, transactionId, status}\<close>\<close>

datatype response = Json nat body | Next error

record internal_body =
  ib_fromAccount :: string
  ib_toAccount :: string
  ib_amount :: rat
  ib_description :: string

record external_body =
  eb_fromAccount :: string
  eb_toAccount :: string
  eb_toBank :: string
  eb_amount :: rat
  eb_currency :: string
  eb_description :: string

record incoming_body =
  in_transactionId :: string
  in_fromBank :: string
  in_fromAccount :: string
  in_toBank :: string
  in_toAccount :: string
  in_amount :: rat
  in_currency :: string
  in_description :: string
  in_timestamp :: string
  in_signature :: jws

text \<open>The sanitizer \<^verbatim>\<open>.trim()\<close> of the description (ASCII white space).\<close>

definition is_space :: "char \<Rightarrow> bool" where
  "is_space c = (c \<in> set [CHR '' '', CHR 0x09, CHR 0x0A, CHR 0x0B, CHR 0x0C, CHR 0x0D])"

definition trim :: "string \<Rightarrow> string" where
  "trim s = rev (dropWhile is_space (rev (dropWhile is_space s)))"

text \<open>The validation chains of express-validator: \<^verbatim>\<open>notEmpty()\<close>,
  \<^verbatim>\<open>isFloat({min: 0.01, max: 1000000})\<close>, \<^verbatim>\<open>isIn(['EUR', 'USD', 'GBP'])\<close>. On a Number
  \<^verbatim>\<open>isFloat\<close> is the range check. (The chain has no \<^verbatim>\<open>toFloat()\<close>: a numeric string would pass
  it and reach the handler as a string; the body types below hold Number amounts only.)\<close>

definition validate_internal :: "internal_body \<Rightarrow> bool" where
  "validate_internal b =
     (ib_fromAccount b \<noteq> [] \<and> ib_toAccount b \<noteq> [] \<and>
      to_double (1 / 100) \<le> ib_amount b \<and> ib_amount b \<le> 1000000)"

definition validate_external :: "external_body \<Rightarrow> bool" where
  "validate_external b =
     (eb_fromAccount b \<noteq> [] \<and> eb_toAccount b \<noteq> [] \<and> eb_toBank b \<noteq> [] \<and>
      to_double (1 / 100) \<le> eb_amount b \<and> eb_amount b \<le> 1000000 \<and>
      eb_currency b \<in> set [''EUR'', ''USD'', ''GBP''])"

subsection \<open>\<^verbatim>\<open>POST /internal\<close>\<close>

text \<open>The three awaited steps after the checks: debit, credit, \<^verbatim>\<open>markCompleted\<close>. A
  rejected step leaves the \<^verbatim>\<open>try\<close> block for \<^verbatim>\<open>next(error)\<close>.\<close>

definition internal_process ::
  "env \<Rightarrow> account \<Rightarrow> account \<Rightarrow> transaction \<Rightarrow> rat \<Rightarrow> world \<Rightarrow> response \<times> world" where
  "internal_process e senderAccount recipientAccount transaction amt w =
     (case debit (db_accepts e Internal_debit) senderAccount amt w of
        (Inl err, senderAccount1, w1) \<Rightarrow> (Next err, w1)
      | (Inr u1, senderAccount1, w1) \<Rightarrow>
          (case credit (db_accepts e Internal_credit) recipientAccount amt w1 of
             (Inl err, recipientAccount1, w2) \<Rightarrow> (Next err, w2)
           | (Inr u2, recipientAccount1, w2) \<Rightarrow>
               (case markCompleted (db_accepts e Internal_markCompleted) transaction w2 of
                  (Inl err, transaction1, w3) \<Rightarrow> (Next err, w3)
                | (Inr u3, transaction1, w3) \<Rightarrow>
                    (Json 201 (InternalDone ''Transaction completed successfully'' transaction1), w3))))"

text \<open>\<open>uid\<close> is the authenticated \<^verbatim>\<open>req.user._id\<close>, \<open>uuid\<close> the identifier that
  \<^verbatim>\<open>uuidv4()\<close> draws for the new record.\<close>

definition internal_transfer ::
  "env \<Rightarrow> string \<Rightarrow> string \<Rightarrow> internal_body \<Rightarrow> world \<Rightarrow> response \<times> world" where
  "internal_transfer e uid uuid b w =
     (if \<not> validate_internal b
        then (Json 400 (ErrorBody ''VALIDATION_ERROR'' ''Validation failed'' None), w)
      else
        (case accounts w (ib_fromAccount b) of
           None \<Rightarrow> (Json 404 (ErrorBody ''ACCOUNT_NOT_FOUND'' ''Sender account not found'' None), w)
         | Some senderAccount \<Rightarrow>
             if user senderAccount \<noteq> uid
               then (Json 403 (ErrorBody ''FORBIDDEN''
                       ''You do not have permission to use this account'' None), w)
             else
               (case accounts w (ib_toAccount b) of
                  None \<Rightarrow>
                    (Json 404 (ErrorBody ''ACCOUNT_NOT_FOUND'' ''Recipient account not found'' None), w)
                | Some recipientAccount \<Rightarrow>
                    if acct_currency senderAccount \<noteq> acct_currency recipientAccount
                      then (Json 400 (ErrorBody ''CURRENCY_MISMATCH''
                              ''Sender and recipient accounts must use the same currency'' None), w)
                    else if \<not> hasSufficientFunds senderAccount (ib_amount b)
                      then (Json 400 (ErrorBody ''INSUFFICIENT_FUNDS''
                              ''Insufficient funds in sender account'' None), w)
                    else
                      internal_process e senderAccount recipientAccount
                        (new_Transaction uuid (accountNumber senderAccount)
                           (accountNumber recipientAccount) (BANK_PREFIX e) (BANK_PREFIX e)
                           (ib_amount b) (acct_currency senderAccount) (trim (ib_description b))
                           True None uid)
                        (ib_amount b) w)))"

subsection \<open>\<^verbatim>\<open>POST /external\<close>\<close>

text \<open>The inner \<^verbatim>\<open>catch\<close>: credit the sender, mark the record failed with the fixed code,
  rethrow. An error of either awaited call replaces the one being handled.\<close>

definition external_catch ::
  "env \<Rightarrow> error \<Rightarrow> account \<Rightarrow> transaction \<Rightarrow> rat \<Rightarrow> world \<Rightarrow> response \<times> world" where
  "external_catch e err senderAccount transaction amt w =
     (case credit (db_accepts e External_catch_credit) senderAccount amt w of
        (Inl err1, senderAccount1, w1) \<Rightarrow> (Next err1, w1)
      | (Inr u1, senderAccount1, w1) \<Rightarrow>
          (case markFailed (db_accepts e External_catch_markFailed) transaction
                  ''CENTRAL_BANK_ERROR'' ''Failed to communicate with central bank'' w1 of
             (Inl err2, transaction1, w2) \<Rightarrow> (Next err2, w2)
           | (Inr u2, transaction1, w2) \<Rightarrow> (Next err, w2)))"

text \<open>The branch \<^verbatim>\<open>if (!response.ok)\<close>, inside the inner \<^verbatim>\<open>try\<close>: parse the body, credit
  the sender, read \<^verbatim>\<open>errorData.error.code\<close> and \<^verbatim>\<open>.message\<close>, mark the record failed,
  answer with the relay's status. Whatever throws on the way is caught by the inner
  \<^verbatim>\<open>catch\<close>, with the documents as they are in memory at that moment.\<close>

definition external_rejected ::
  "env \<Rightarrow> nat \<Rightarrow> relay_body \<Rightarrow> account \<Rightarrow> transaction \<Rightarrow> rat \<Rightarrow> world \<Rightarrow> response \<times> world" where
  "external_rejected e http_status rbody senderAccount transaction amt w =
     (case rbody of
        BodyNotJson \<Rightarrow> external_catch e SyntaxError senderAccount transaction amt w
      | BodyJson errorData \<Rightarrow>
          (case credit (db_accepts e External_rejected_credit) senderAccount amt w of
             (Inl err1, senderAccount1, w1) \<Rightarrow> external_catch e err1 senderAccount1 transaction amt w1
           | (Inr u1, senderAccount1, w1) \<Rightarrow>
               (case errorData of
                  None \<Rightarrow> external_catch e TypeError senderAccount1 transaction amt w1
                | Some (code, message) \<Rightarrow>
                    (case markFailed (db_accepts e External_rejected_markFailed) transaction code message w1 of
                       (Inl err2, transaction1, w2) \<Rightarrow> external_catch e err2 senderAccount1 transaction1 amt w2
                     | (Inr u2, transaction1, w2) \<Rightarrow>
                         (Json http_status (ErrorBody code message (Some (transactionId transaction1))),
                          w2)))))"

text \<open>The inner \<^verbatim>\<open>try\<close>: post the signed payload; \<^verbatim>\<open>response.ok\<close> is a status in
  \<open>200..299\<close>.\<close>

definition external_dispatch ::
  "env \<Rightarrow> payload \<Rightarrow> jws \<Rightarrow> account \<Rightarrow> transaction \<Rightarrow> rat \<Rightarrow> world \<Rightarrow> response \<times> world" where
  "external_dispatch e pl sig senderAccount transaction amt w =
     (case CENTRAL_BANK_URL e of
        None \<Rightarrow> external_catch e TypeError senderAccount transaction amt w
      | Some centralBankUrl \<Rightarrow>
          let w1 = w\<lparr>io_log := io_log w @ [RelayPost pl sig]\<rparr> in
          (case relay e pl sig of
             RelayUnreachable \<Rightarrow> external_catch e FetchError senderAccount transaction amt w1
           | RelayHttp http_status rbody \<Rightarrow>
               if \<not> (200 \<le> http_status \<and> http_status \<le> 299)
                 then external_rejected e http_status rbody senderAccount transaction amt w1
               else
                 (case rbody of
                    BodyNotJson \<Rightarrow> external_catch e SyntaxError senderAccount transaction amt w1
                  | BodyJson responseData \<Rightarrow>
                      (Json 201 (ExternalDone ''Transaction initiated successfully'' transaction rbody),
                       w1))))"

text \<open>From \<^verbatim>\<open>await transaction.save()\<close> to the inner \<^verbatim>\<open>try\<close>: persist the new record, build
  and sign the payload, attach the signature and mark the record in progress, debit the
  sender. \<open>now\<close> is \<^verbatim>\<open>new Date().toISOString()\<close>.\<close>

definition external_process ::
  "env \<Rightarrow> string \<Rightarrow> external_body \<Rightarrow> account \<Rightarrow> transaction \<Rightarrow> world \<Rightarrow> response \<times> world" where
  "external_process e now b senderAccount transaction w =
     (case save_transaction (db_accepts e External_save) transaction w of
        (Inl err, transaction1, w1) \<Rightarrow> (Next err, w1)
      | (Inr u1, transaction1, w1) \<Rightarrow>
          let transactionPayload =
                \<lparr>pl_transactionId = transactionId transaction1, pl_fromBank = BANK_PREFIX e,
                 pl_fromAccount = accountNumber senderAccount, pl_toBank = eb_toBank b,
                 pl_toAccount = eb_toAccount b, pl_amount = eb_amount b,
                 pl_currency = eb_currency b, pl_description = trim (eb_description b),
                 pl_timestamp = now\<rparr> in
          (case signTransaction e transactionPayload of
             Inl err \<Rightarrow> (Next err, w1)
           | Inr sig \<Rightarrow>
               (case markInProgress (db_accepts e External_markInProgress)
                       (transaction1\<lparr>signature := Some sig\<rparr>) w1 of
                  (Inl err, transaction2, w2) \<Rightarrow> (Next err, w2)
                | (Inr u2, transaction2, w2) \<Rightarrow>
                    (case debit (db_accepts e External_debit) senderAccount (eb_amount b) w2 of
                       (Inl err, senderAccount1, w3) \<Rightarrow> (Next err, w3)
                     | (Inr u3, senderAccount1, w3) \<Rightarrow>
                         external_dispatch e transactionPayload sig senderAccount1 transaction2
                           (eb_amount b) w3))))"

definition external_transfer ::
  "env \<Rightarrow> string \<Rightarrow> string \<Rightarrow> string \<Rightarrow> external_body \<Rightarrow> world \<Rightarrow> response \<times> world" where
  "external_transfer e uid uuid now b w =
     (if \<not> validate_external b
        then (Json 400 (ErrorBody ''VALIDATION_ERROR'' ''Validation failed'' None), w)
      else if eb_toBank b = BANK_PREFIX e
        then (Json 400 (ErrorBody ''INVALID_DESTINATION''
                ''For transfers within this bank, use the internal transfer endpoint'' None), w)
      else
        (case accounts w (eb_fromAccount b) of
           None \<Rightarrow> (Json 404 (ErrorBody ''ACCOUNT_NOT_FOUND'' ''Sender account not found'' None), w)
         | Some senderAccount \<Rightarrow>
             if user senderAccount \<noteq> uid
               then (Json 403 (ErrorBody ''FORBIDDEN''
                       ''You do not have permission to use this account'' None), w)
             else if acct_currency senderAccount \<noteq> eb_currency b
               then (Json 400 (ErrorBody ''CURRENCY_MISMATCH''
                       ''Transaction currency must match account currency'' None), w)
             else if \<not> hasSufficientFunds senderAccount (eb_amount b)
               then (Json 400 (ErrorBody ''INSUFFICIENT_FUNDS''
                       ''Insufficient funds in sender account'' None), w)
             else
               external_process e now b senderAccount
                 (new_Transaction uuid (accountNumber senderAccount) (eb_toAccount b)
                    (BANK_PREFIX e) (eb_toBank b) (eb_amount b) (eb_currency b)
                    (trim (eb_description b)) False None uid)
                 w))"

subsection \<open>\<^verbatim>\<open>POST /incoming\<close>\<close>

text \<open>The accept path, after every check: build the record, credit the recipient,
  \<^verbatim>\<open>markCompleted\<close>. \<open>Inl\<close> is an exception on its way to the handler's \<^verbatim>\<open>catch\<close>.\<close>

definition incoming_accept ::
  "env \<Rightarrow> incoming_body \<Rightarrow> account \<Rightarrow> world \<Rightarrow> (error + response) \<times> world" where
  "incoming_accept e b recipientAccount w =
     (case credit (db_accepts e Incoming_credit) recipientAccount (in_amount b) w of
        (Inl err, recipientAccount1, w1) \<Rightarrow> (Inl err, w1)
      | (Inr u1, recipientAccount1, w1) \<Rightarrow>
          (case markCompleted (db_accepts e Incoming_markCompleted)
                  (new_Transaction (in_transactionId b) (in_fromAccount b) (in_toAccount b)
                     (in_fromBank b) (in_toBank b) (in_amount b) (in_currency b)
                     (in_description b) False (Some (in_signature b))
                     (user recipientAccount)) w1 of
             (Inl err, transaction1, w2) \<Rightarrow> (Inl err, w2)
           | (Inr u2, transaction1, w2) \<Rightarrow>
               (Inr (Json 200 (IncomingDone ''Transaction processed successfully''
                  (in_transactionId b) COMPLETED)), w2)))"

text \<open>The body of the handler's \<^verbatim>\<open>try\<close> block: destination check, duplicate check,
  signature check, recipient lookup, currency check, accept path.\<close>

definition incoming_try :: "env \<Rightarrow> incoming_body \<Rightarrow> world \<Rightarrow> (error + response) \<times> world" where
  "incoming_try e b w =
     (if in_toBank b \<noteq> BANK_PREFIX e
        then (Inr (Json 400 (ErrorBody ''INVALID_DESTINATION''
                ''This transaction is not intended for this bank'' (Some (in_transactionId b)))), w)
      else
        (case transactions w (in_transactionId b) of
           Some existingTransaction \<Rightarrow>
             (Inr (Json 200 (IncomingDone ''Transaction already processed'' (in_transactionId b)
                     (status existingTransaction))), w)
         | None \<Rightarrow>
             let payloadToVerify =
                   \<lparr>pl_transactionId = in_transactionId b, pl_fromBank = in_fromBank b,
                    pl_fromAccount = in_fromAccount b, pl_toBank = in_toBank b,
                    pl_toAccount = in_toAccount b, pl_amount = in_amount b,
                    pl_currency = in_currency b, pl_description = in_description b,
                    pl_timestamp = in_timestamp b\<rparr> in
             (case verifySignature e payloadToVerify (in_signature b) (in_fromBank b) of
                Inl err \<Rightarrow> (Inl err, w)
              | Inr isSignatureValid \<Rightarrow>
                  if \<not> isSignatureValid
                    then (Inr (Json 400 (ErrorBody ''INVALID_SIGNATURE''
                            ''Transaction signature validation failed''
                            (Some (in_transactionId b)))), w)
                  else
                    (case accounts w (in_toAccount b) of
                       None \<Rightarrow>
                         (Inr (Json 404 (ErrorBody ''ACCOUNT_NOT_FOUND''
                            ''Recipient account not found'' (Some (in_transactionId b)))), w)
                     | Some recipientAccount \<Rightarrow>
                         if acct_currency recipientAccount \<noteq> in_currency b
                           then (Inr (Json 400 (ErrorBody ''CURRENCY_MISMATCH''
                                   ''Transaction currency does not match account currency''
                                   (Some (in_transactionId b)))), w)
                         else incoming_accept e b recipientAccount w))))"

definition incoming_transfer :: "env \<Rightarrow> incoming_body \<Rightarrow> world \<Rightarrow> response \<times> world" where
  "incoming_transfer e b w =
     (case incoming_try e b w of
        (Inl err, w1) \<Rightarrow>
          (Json 500 (ErrorBody ''TRANSACTION_PROCESSING_ERROR'' ''Failed to process transaction''
             (Some (in_transactionId b))), w1)
      | (Inr res, w1) \<Rightarrow> (res, w1))"

subsection \<open>Properties used in the statements\<close>

text \<open>Every stored balance is non-negative.\<close>

definition balances_nonneg :: "world \<Rightarrow> bool" where
  "balances_nonneg w = (\<forall>k a. accounts w k = Some a \<longrightarrow> 0 \<le> balance a)"

text \<open>The same world with other active flags: \<open>f\<close> gives the flag of each account
  number.\<close>

definition set_active :: "(string \<Rightarrow> bool) \<Rightarrow> account \<Rightarrow> account" where
  "set_active f a = a\<lparr>isActive := f (accountNumber a)\<rparr>"

definition with_active :: "(string \<Rightarrow> bool) \<Rightarrow> world \<Rightarrow> world" where
  "with_active f w = w\<lparr>accounts := (\<lambda>k. map_option (set_active f) (accounts w k))\<rparr>"

text \<open>What kind of step an effect of the log is.\<close>

datatype step = WriteTransaction status | WriteBalance | PostToRelay

fun step_of :: "effect \<Rightarrow> step" where
  "step_of (AccountSaved n v) = WriteBalance"
| "step_of (TransactionSaved t) = WriteTransaction (status t)"
| "step_of (RelayPost pl sig) = PostToRelay"

text \<open>The effects a handler added to the log.\<close>

definition new_effects :: "world \<Rightarrow> world \<Rightarrow> effect list" where
  "new_effects w w' = drop (length (io_log w)) (io_log w')"

text \<open>The log of \<open>w'\<close> continues the log of \<open>w\<close>.\<close>

definition extends :: "world \<Rightarrow> world \<Rightarrow> bool" where
  "extends w w' = (\<exists>l. io_log w' = io_log w @ l)"

text \<open>The world after one accepted write: of a balance, of a transaction record.\<close>

definition balance_written :: "account \<Rightarrow> rat \<Rightarrow> world \<Rightarrow> world" where
  "balance_written a v w =
     w\<lparr>accounts := (accounts w)(accountNumber a \<mapsto> a\<lparr>balance := v\<rparr>),
       io_log := io_log w @ [AccountSaved (accountNumber a) v]\<rparr>"

definition record_written :: "transaction \<Rightarrow> world \<Rightarrow> world" where
  "record_written t w =
     w\<lparr>transactions := (transactions w)(transactionId t \<mapsto> t),
       io_log := io_log w @ [TransactionSaved t]\<rparr>"

text \<open>The order of the steps of an external transfer as the specification lists them:
  persist as pending, debit, sign and mark in progress, dispatch.\<close>

definition specified_external_order :: "step list" where
  "specified_external_order =
     [WriteTransaction PENDING, WriteBalance, WriteTransaction IN_PROGRESS, PostToRelay]"

subsection \<open>Concrete inputs\<close>

definition ex_alice :: account where
  "ex_alice = \<lparr>accountNumber = ''OVE-1'', user = ''u1'', accountType = ''checking'',
     acct_currency = ''EUR'', balance = 100, isActive = True, acct_description = []\<rparr>"

definition ex_bob :: account where
  "ex_bob = \<lparr>accountNumber = ''OVE-2'', user = ''u2'', accountType = ''checking'',
     acct_currency = ''EUR'', balance = 0, isActive = True, acct_description = []\<rparr>"

text \<open>The Numbers that the JSON texts \<^verbatim>\<open>100.1\<close>, \<^verbatim>\<open>0.1\<close>, \<^verbatim>\<open>0.7\<close> and \<^verbatim>\<open>0.8\<close> parse to, and an
  account that holds the first.\<close>

definition ex_100_1 :: rat where
  "ex_100_1 = to_double (1001 / 10)"

definition ex_0_1 :: rat where
  "ex_0_1 = to_double (1 / 10)"

definition ex_0_7 :: rat where
  "ex_0_7 = to_double (7 / 10)"

definition ex_0_8 :: rat where
  "ex_0_8 = to_double (8 / 10)"

definition ex_carol :: account where
  "ex_carol = \<lparr>accountNumber = ''OVE-3'', user = ''u3'', accountType = ''checking'',
     acct_currency = ''EUR'', balance = ex_100_1, isActive = True, acct_description = []\<rparr>"

definition ex_world :: world where
  "ex_world = \<lparr>accounts = [''OVE-1'' \<mapsto> ex_alice, ''OVE-2'' \<mapsto> ex_bob],
     transactions = Map.empty, io_log = []\<rparr>"

text \<open>A bank \<^verbatim>\<open>OVE\<close> whose key files hold the two halves of pair 1, a key directory that
  knows bank \<^verbatim>\<open>ABC\<close> (pair 2) only, a relay that accepts, a database that accepts every
  write.\<close>

definition ex_env :: env where
  "ex_env = \<lparr>BANK_PREFIX = ''OVE'', CENTRAL_BANK_URL = Some ''http://localhost:5000'',
     PRIVATE_KEY = Some (Pem 1), PUBLIC_KEY = Some (Pem 1),
     key_directory = (\<lambda>bank. if bank = ''ABC'' then KeyHttp True (KeyJson (Some (Pem 2)))
                               else KeyHttp False KeyNotJson),
     relay = (\<lambda>pl sig. RelayHttp 200 (BodyJson None)),
     db_accepts = (\<lambda>s. True)\<rparr>"

text \<open>The same bank with a database that refuses the write of the credit of an internal
  transfer; with a relay that answers 429 with a JSON body that has no \<^verbatim>\<open>error\<close> member;
  with a relay that answers 400 with \<^verbatim>\<open>{error: {code: 'INSUFFICIENT_FUNDS', ...}}\<close>.\<close>

definition ex_env_credit_refused :: env where
  "ex_env_credit_refused = ex_env\<lparr>db_accepts := (\<lambda>s. s \<noteq> Internal_credit)\<rparr>"

definition ex_env_relay_429 :: env where
  "ex_env_relay_429 = ex_env\<lparr>relay := (\<lambda>pl sig. RelayHttp 429 (BodyJson None))\<rparr>"

definition ex_env_relay_rejects :: env where
  "ex_env_relay_rejects =
     ex_env\<lparr>relay := (\<lambda>pl sig. RelayHttp 400
       (BodyJson (Some (''INSUFFICIENT_FUNDS'', ''Insufficient funds''))))\<rparr>"

definition ex_payload :: payload where
  "ex_payload = \<lparr>pl_transactionId = ''t-1'', pl_fromBank = ''OVE'', pl_fromAccount = ''OVE-1'',
     pl_toBank = ''ABC'', pl_toAccount = ''ABC-7'', pl_amount = 50, pl_currency = ''EUR'',
     pl_description = ''rent'', pl_timestamp = ''2025-01-01T00:00:00.000Z''\<rparr>"

definition ex_internal :: internal_body where
  "ex_internal = \<lparr>ib_fromAccount = ''OVE-1'', ib_toAccount = ''OVE-2'', ib_amount = 50,
     ib_description = ''rent''\<rparr>"

definition ex_external :: external_body where
  "ex_external = \<lparr>eb_fromAccount = ''OVE-1'', eb_toAccount = ''ABC-7'', eb_toBank = ''ABC'',
     eb_amount = 50, eb_currency = ''EUR'', eb_description = ''rent''\<rparr>"

text \<open>The request body that carries a payload and a token made over that same payload
  with the private key of pair \<open>k\<close>.\<close>

definition signed_request :: "payload \<Rightarrow> nat \<Rightarrow> incoming_body" where
  "signed_request pl k =
     \<lparr>in_transactionId = pl_transactionId pl, in_fromBank = pl_fromBank pl,
      in_fromAccount = pl_fromAccount pl, in_toBank = pl_toBank pl,
      in_toAccount = pl_toAccount pl, in_amount = pl_amount pl, in_currency = pl_currency pl,
      in_description = pl_description pl, in_timestamp = pl_timestamp pl,
      in_signature = JWS RS256 pl k\<rparr>"

text \<open>An incoming transfer of 30 from bank \<^verbatim>\<open>ABC\<close> to account \<^verbatim>\<open>OVE-2\<close>, signed with
  the key of \<^verbatim>\<open>ABC\<close>.\<close>

definition ex_in_payload :: payload where
  "ex_in_payload = \<lparr>pl_transactionId = ''t-9'', pl_fromBank = ''ABC'', pl_fromAccount = ''ABC-7'',
     pl_toBank = ''OVE'', pl_toAccount = ''OVE-2'', pl_amount = 30, pl_currency = ''EUR'',
     pl_description = ''gift'', pl_timestamp = ''2025-01-01T00:00:00.000Z''\<rparr>"

definition ex_incoming :: incoming_body where
  "ex_incoming = signed_request ex_in_payload 2"

text \<open>The record that \<open>ex_incoming\<close> leaves when it is accepted, and the world after it.\<close>

definition ex_in_record :: transaction where
  "ex_in_record = \<lparr>transactionId = ''t-9'', fromAccount = ''ABC-7'', toAccount = ''OVE-2'',
     fromBank = ''ABC'', toBank = ''OVE'', amount = 30, currency = ''EUR'',
     description = ''gift'', status = COMPLETED, errorCode = None, errorMessage = None,
     isInternal = False, signature = Some (JWS RS256 ex_in_payload 2), initiatedBy = ''u2'',
     isNew = False\<rparr>"

definition ex_world_after_incoming :: world where
  "ex_world_after_incoming =
     \<lparr>accounts = [''OVE-1'' \<mapsto> ex_alice, ''OVE-2'' \<mapsto> ex_bob\<lparr>balance := 30\<rparr>],
      transactions = [''t-9'' \<mapsto> ex_in_record],
      io_log = [AccountSaved ''OVE-2'' 30, TransactionSaved ex_in_record]\<rparr>"

text \<open>The same transfer with the amount 2000000, signed over that amount; and a database
  that refuses the write of the record of an incoming transfer.\<close>

definition ex_incoming_too_large :: incoming_body where
  "ex_incoming_too_large = signed_request (ex_in_payload\<lparr>pl_amount := 2000000\<rparr>) 2"

definition ex_env_record_refused :: env where
  "ex_env_record_refused = ex_env\<lparr>db_accepts := (\<lambda>s. s \<noteq> Incoming_markCompleted)\<rparr>"

section \<open>Numbers\<close>

lemma binade_numeral:
  "binade (numeral k) x e =
     (if 2 \<le> x then binade (pred_numeral k) (x / 2) (e + 1)
      else if x < 1 then binade (pred_numeral k) (x * 2) (e - 1)
      else e)"
  by (simp add: numeral_eq_Suc)

lemmas double_eval = to_double_def binade_numeral pow2_def round_half_even_def Let_def

lemma to_double_nonneg: "0 \<le> x \<Longrightarrow> 0 \<le> to_double x"
  by (simp add: to_double_def Let_def pow2_def round_half_even_def)

lemma to_double_zero [simp]: "to_double 0 = 0"
  by (simp add: to_double_def)

text \<open>The integers used below are doubles.\<close>

lemma to_double_values [simp]:
  "to_double 30 = 30" "to_double 50 = 50" "to_double 60 = 60" "to_double 100 = 100"
  "to_double 150 = 150" "to_double 2000000 = 2000000" "to_double 4000000 = 4000000"
  by (simp_all add: double_eval)

text \<open>The Number \<^verbatim>\<open>0.01\<close>, the lower bound of an amount.\<close>

lemma to_double_cent: "to_double (1 / 100) = 5764607523034235 / 576460752303423488"
  by code_simp

lemma cent_positive: "0 < to_double (1 / 100)"
  by (simp add: to_double_cent)

text \<open>The Numbers \<^verbatim>\<open>100.1\<close> and \<^verbatim>\<open>0.1\<close>, and their difference as JavaScript computes it.\<close>

lemma ex_100_1_value: "ex_100_1 = 3521955646092083 / 35184372088832"
  unfolding ex_100_1_def by code_simp

lemma ex_0_1_value: "ex_0_1 = 3602879701896397 / 36028797018963968"
  unfolding ex_0_1_def by code_simp

lemma ex_difference_rounds_to_100: "js_sub ex_100_1 ex_0_1 = 100"
  unfolding js_sub_def ex_100_1_def ex_0_1_def by code_simp

lemma ex_difference_exact: "ex_100_1 - ex_0_1 = 3602879701896396595 / 36028797018963968"
  by (simp add: ex_100_1_value ex_0_1_value)

text \<open>\<^verbatim>\<open>0.1 + 0.7\<close> is \<^verbatim>\<open>0.7999999999999999\<close>, below \<^verbatim>\<open>0.8\<close>.\<close>

lemma ex_sum_rounds_below:
  "0 < ex_0_1 \<and> 0 < ex_0_7 \<and> 0 < ex_0_8 \<and> to_double (ex_0_1 + ex_0_7) < ex_0_8 \<and>
   to_double (ex_0_1 + ex_0_7) = to_double (7999999999999999 / 10 ^ 16)"
  by code_simp

section \<open>Ledger\<close>

text \<open>Groups of defining equations, for evaluating a handler at a concrete input.\<close>

lemmas ledger_defs = debit_def credit_def hasSufficientFunds_def save_account_def js_add_def
  js_sub_def Let_def

lemmas record_defs = markCompleted_def markFailed_def markInProgress_def updateStatus_def
  save_transaction_def validate_transaction_def new_Transaction_def to_double_cent

lemmas example_defs = ex_env_def ex_world_def ex_alice_def ex_bob_def ex_internal_def
  ex_external_def ex_payload_def

lemma trim_rent [simp]: "trim ''rent'' = ''rent''"
  by (simp add: trim_def is_space_def)

text \<open>A call whose guards pass, by what the database answers.\<close>

lemma debit_accepted:
  "0 < amt \<Longrightarrow> amt \<le> balance s \<Longrightarrow>
   debit True s amt w =
     (Inr (), s\<lparr>balance := js_sub (balance s) amt\<rparr>, balance_written s (js_sub (balance s) amt) w)"
  using to_double_nonneg [of "balance s - amt"]
  by (simp add: ledger_defs balance_written_def not_less)

lemma debit_refused:
  "0 < amt \<Longrightarrow> amt \<le> balance s \<Longrightarrow>
   debit False s amt w = (Inl StorageError, s\<lparr>balance := js_sub (balance s) amt\<rparr>, w)"
  using to_double_nonneg [of "balance s - amt"]
  by (simp add: ledger_defs not_less)

lemma credit_accepted:
  "0 < amt \<Longrightarrow> 0 \<le> balance r \<Longrightarrow>
   credit True r amt w =
     (Inr (), r\<lparr>balance := js_add (balance r) amt\<rparr>, balance_written r (js_add (balance r) amt) w)"
  using to_double_nonneg [of "balance r + amt"]
  by (simp add: ledger_defs balance_written_def not_less)

lemma credit_refused:
  "0 < amt \<Longrightarrow> 0 \<le> balance r \<Longrightarrow>
   credit False r amt w = (Inl StorageError, r\<lparr>balance := js_add (balance r) amt\<rparr>, w)"
  using to_double_nonneg [of "balance r + amt"]
  by (simp add: ledger_defs not_less)

text \<open>What a call of \<open>debit\<close> or \<open>credit\<close> can return: success with the balance moved by
  the amount and written, or an error with the world as it was. After a write the
  database refused, the in-memory document keeps the new balance.\<close>

lemma debit_result:
  "debit accepted this amt w = (r, this', w') \<Longrightarrow>
     (r = Inr () \<and> 0 < amt \<and> amt \<le> balance this \<and> accepted \<and>
        this' = this\<lparr>balance := js_sub (balance this) amt\<rparr> \<and>
        w' = w\<lparr>accounts := (accounts w)(accountNumber this \<mapsto> this'),
                io_log := io_log w @ [AccountSaved (accountNumber this) (balance this')]\<rparr>) \<or>
     ((\<exists>err. r = Inl err) \<and> w' = w \<and>
        (this' = this \<or> (0 < amt \<and> amt \<le> balance this \<and>
            this' = this\<lparr>balance := js_sub (balance this) amt\<rparr>)))"
  by (auto simp: debit_def hasSufficientFunds_def save_account_def Let_def split: if_splits)

lemma credit_result:
  "credit accepted this amt w = (r, this', w') \<Longrightarrow>
     (r = Inr () \<and> 0 < amt \<and> 0 \<le> js_add (balance this) amt \<and> accepted \<and>
        this' = this\<lparr>balance := js_add (balance this) amt\<rparr> \<and>
        w' = w\<lparr>accounts := (accounts w)(accountNumber this \<mapsto> this'),
                io_log := io_log w @ [AccountSaved (accountNumber this) (balance this')]\<rparr>) \<or>
     ((\<exists>err. r = Inl err) \<and> w' = w \<and>
        (this' = this \<or> (0 < amt \<and> this' = this\<lparr>balance := js_add (balance this) amt\<rparr>)))"
  by (auto simp: credit_def save_account_def Let_def split: if_splits)

text \<open>
  \<^bold>\<open>C6\<close> (as amended) Debit contract. \<open>debit\<close> fails with the invalid-amount error
  (\<^verbatim>\<open>'Debit amount must be positive'\<close>) when the amount is at most \<open>0\<close>; it fails with the
  insufficient-funds error (\<^verbatim>\<open>'Insufficient funds'\<close>) when the balance is below the
  amount; otherwise it sets the balance of the document to the double nearest to
  balance minus amount (ties to even) and sends the write: accepted by the database, the
  new value is stored; refused, the error of the database is thrown and the store is as
  before. A debit of exactly the full balance leaves \<open>0\<close>.
\<close>

theorem debit_contract_on_doubles:
  "(amt \<le> 0 \<longrightarrow>
      debit accepted this amt w = (Inl (Error ''Debit amount must be positive''), this, w)) \<and>
   (0 < amt \<and> balance this < amt \<longrightarrow>
      debit accepted this amt w = (Inl (Error ''Insufficient funds''), this, w)) \<and>
   (0 < amt \<and> amt \<le> balance this \<and> accepted \<longrightarrow>
      debit accepted this amt w =
        (Inr (), this\<lparr>balance := to_double (balance this - amt)\<rparr>,
         w\<lparr>accounts := (accounts w)
              (accountNumber this \<mapsto> this\<lparr>balance := to_double (balance this - amt)\<rparr>),
           io_log := io_log w @
              [AccountSaved (accountNumber this) (to_double (balance this - amt))]\<rparr>)) \<and>
   (0 < amt \<and> amt \<le> balance this \<and> \<not> accepted \<longrightarrow>
      debit accepted this amt w =
        (Inl StorageError, this\<lparr>balance := to_double (balance this - amt)\<rparr>, w)) \<and>
   (amt = balance this \<longrightarrow> to_double (balance this - amt) = 0)"
  using to_double_nonneg [of "balance this - amt"]
  by (auto simp: debit_def hasSufficientFunds_def save_account_def js_sub_def Let_def)

theorem debit_contract_on_doubles_witness:
  "debit True ex_alice 0 ex_world =
     (Inl (Error ''Debit amount must be positive''), ex_alice, ex_world) \<and>
   debit True ex_alice 150 ex_world = (Inl (Error ''Insufficient funds''), ex_alice, ex_world) \<and>
   debit True ex_alice 100 ex_world =
     (Inr (), ex_alice\<lparr>balance := 0\<rparr>,
      ex_world\<lparr>accounts := (accounts ex_world)(''OVE-1'' \<mapsto> ex_alice\<lparr>balance := 0\<rparr>),
        io_log := [AccountSaved ''OVE-1'' 0]\<rparr>) \<and>
   debit False ex_alice 100 ex_world = (Inl StorageError, ex_alice\<lparr>balance := 0\<rparr>, ex_world) \<and>
   debit True ex_alice 50 ex_world =
     (Inr (), ex_alice\<lparr>balance := 50\<rparr>,
      ex_world\<lparr>accounts := (accounts ex_world)(''OVE-1'' \<mapsto> ex_alice\<lparr>balance := 50\<rparr>),
        io_log := [AccountSaved ''OVE-1'' 50]\<rparr>)"
  using debit_contract_on_doubles [of 0 True ex_alice ex_world]
        debit_contract_on_doubles [of 150 True ex_alice ex_world]
        debit_contract_on_doubles [of 100 True ex_alice ex_world]
        debit_contract_on_doubles [of 100 False ex_alice ex_world]
        debit_contract_on_doubles [of 50 True ex_alice ex_world]
  by (simp add: ex_alice_def ex_world_def)

text \<open>
  \<^bold>\<open>C6\<close> (as stated) fails. An account holds the Number \<^verbatim>\<open>100.1\<close> and is debited the
  Number \<^verbatim>\<open>0.1\<close>; both guards pass and the write is accepted. The balance stored is
  \<open>100\<close>, which is not the balance minus the amount: the subtraction is rounded to the
  nearest double.
\<close>

theorem debit_not_by_exactly_amount:
  "0 < ex_0_1 \<and> ex_0_1 \<le> balance ex_carol \<and>
   debit True ex_carol ex_0_1 ex_world =
     (Inr (), ex_carol\<lparr>balance := 100\<rparr>,
      ex_world\<lparr>accounts := (accounts ex_world)(''OVE-3'' \<mapsto> ex_carol\<lparr>balance := 100\<rparr>),
        io_log := [AccountSaved ''OVE-3'' 100]\<rparr>) \<and>
   balance ex_carol - ex_0_1 \<noteq> 100"
proof -
  have b: "balance ex_carol = ex_100_1" "accountNumber ex_carol = ''OVE-3''"
    by (simp_all add: ex_carol_def)
  have g: "0 < ex_0_1" "ex_0_1 \<le> ex_100_1" "ex_100_1 - ex_0_1 \<noteq> 100"
    by (simp_all add: ex_100_1_value ex_0_1_value)
  show ?thesis
    using g debit_accepted [of ex_0_1 ex_carol ex_world]
    by (simp add: b ex_difference_rounds_to_100 balance_written_def ex_world_def)
qed

text \<open>An account that holds \<^verbatim>\<open>0.1\<close> is credited \<^verbatim>\<open>0.7\<close>; a debit of \<^verbatim>\<open>0.8\<close> is then refused
  for insufficient funds.\<close>

lemma debit_after_rounded_credit_refused:
  "fst (credit True (ex_carol\<lparr>balance := ex_0_1\<rparr>) ex_0_7 ex_world) = Inr () \<and>
   fst (debit True (fst (snd (credit True (ex_carol\<lparr>balance := ex_0_1\<rparr>) ex_0_7 ex_world))) ex_0_8
          (snd (snd (credit True (ex_carol\<lparr>balance := ex_0_1\<rparr>) ex_0_7 ex_world)))) =
     Inl (Error ''Insufficient funds'')"
  using ex_sum_rounds_below to_double_nonneg [of "ex_0_1 + ex_0_7"]
  by (simp add: ledger_defs)

text \<open>
  \<^bold>\<open>C7\<close> Non-negative balance invariant. Take an account document whose balance is
  at least \<open>0\<close> and a world in which every stored balance is at least \<open>0\<close>. Whatever
  \<open>debit\<close> or \<open>credit\<close> returns, the document's balance is still at least \<open>0\<close> and so is
  every stored balance; a failed call leaves the world as it was, a successful one has
  stored the document.
\<close>

theorem ledger_keeps_balances_nonneg:
  assumes "0 \<le> balance this" and "balances_nonneg w"
    and "debit accepted this amt w = (r, this', w') \<or> credit accepted this amt w = (r, this', w')"
  shows "0 \<le> balance this' \<and> balances_nonneg w' \<and>
         (case r of
            Inl err \<Rightarrow> w' = w
          | Inr u \<Rightarrow> accounts w' (accountNumber this) = Some this')"
  using assms(3)
proof
  assume "debit accepted this amt w = (r, this', w')"
  from debit_result [OF this] assms(1,2) to_double_nonneg [of "balance this - amt"] show ?thesis
    by (auto simp: balances_nonneg_def js_sub_def split: if_splits)
next
  assume "credit accepted this amt w = (r, this', w')"
  from credit_result [OF this] assms(1,2) to_double_nonneg [of "balance this + amt"] show ?thesis
    by (auto simp: balances_nonneg_def js_add_def split: if_splits)
qed

theorem ledger_keeps_balances_nonneg_witness:
  "0 \<le> balance ex_alice \<and> balances_nonneg ex_world \<and>
   debit True ex_alice 100 ex_world =
     (Inr (), ex_alice\<lparr>balance := 0\<rparr>,
      ex_world\<lparr>accounts := (accounts ex_world)(''OVE-1'' \<mapsto> ex_alice\<lparr>balance := 0\<rparr>),
        io_log := [AccountSaved ''OVE-1'' 0]\<rparr>) \<and>
   0 \<le> balance (ex_alice\<lparr>balance := 0\<rparr>) \<and>
   balances_nonneg
     (ex_world\<lparr>accounts := (accounts ex_world)(''OVE-1'' \<mapsto> ex_alice\<lparr>balance := 0\<rparr>),
        io_log := [AccountSaved ''OVE-1'' 0]\<rparr>)"
proof -
  have b: "0 \<le> balance ex_alice"
    by (simp add: ex_alice_def)
  have n: "balances_nonneg ex_world"
    by (auto simp: balances_nonneg_def ex_world_def ex_alice_def ex_bob_def split: if_splits)
  have d: "debit True ex_alice 100 ex_world =
     (Inr (), ex_alice\<lparr>balance := 0\<rparr>,
      ex_world\<lparr>accounts := (accounts ex_world)(''OVE-1'' \<mapsto> ex_alice\<lparr>balance := 0\<rparr>),
        io_log := [AccountSaved ''OVE-1'' 0]\<rparr>)"
    by (simp add: ledger_defs ex_alice_def ex_world_def)
  from ledger_keeps_balances_nonneg [OF b n disjI1, OF d] b n d show ?thesis
    by simp
qed

section \<open>Signatures\<close>

lemma verifySignature_ignores_payload:
  "verifySignature e pl sig fromB = verifySignature e pl' sig fromB"
  by (simp add: verifySignature_def verifySignature_try_def)

text \<open>With the two key files holding the halves of one pair, what the bank signs it also
  verifies.\<close>

lemma sign_verify_roundtrip:
  assumes "PRIVATE_KEY e = Some (Pem k)" and "PUBLIC_KEY e = Some (Pem k)"
  shows "signTransaction e pl = Inr (JWS RS256 pl k) \<and>
         verifySignature e pl (JWS RS256 pl k) (BANK_PREFIX e) = Inr True"
  using assms
  by (simp add: signTransaction_def jwt_sign_def verifySignature_def verifySignature_try_def
      jwt_verify_def)

text \<open>What the function computes: always a boolean, never an error; true exactly when the
  signature is an RS256 token made with the private key of the pair whose public key
  the lookup yields (the local key file for the bank itself, an OK JSON answer of the
  key directory with a well-formed key for any other bank). A missing file, an unset
  URL, an unreachable or refusing directory, a body that is not JSON or has no key, a
  malformed key, a token that is none, another algorithm or another signer all give
  false. The payload is no part of the condition.\<close>

lemma verifySignature_characterised:
  "verifySignature e pl sig fromB =
     Inr (\<exists>claims k. sig = JWS RS256 claims k \<and>
            (if fromB = BANK_PREFIX e then PUBLIC_KEY e = Some (Pem k)
             else CENTRAL_BANK_URL e \<noteq> None \<and>
                  key_directory e fromB = KeyHttp True (KeyJson (Some (Pem k)))))"
  by (auto simp: verifySignature_def verifySignature_try_def jwt_verify_def
      split: sum.splits option.splits key_response.splits key_body.splits jws.splits pem.splits
        if_splits)

text \<open>
  \<^bold>\<open>C9\<close> Verification fails closed, at a concrete input. Bank \<^verbatim>\<open>ABC\<close> signed the
  payload \<open>ex_in_payload\<close>, a transfer to account \<^verbatim>\<open>OVE-2\<close>. Presented with that payload
  the signature verifies. Presented with the payload whose destination account was
  changed to \<^verbatim>\<open>OVE-1\<close>, a payload the signature was not made over, it verifies as well:
  this mismatch does not yield false. (A token of another signer, another algorithm or no
  token at all does.)
\<close>

theorem verifySignature_accepts_signature_of_other_payload:
  "pl_toAccount ex_in_payload = ''OVE-2'' \<and>
   verifySignature ex_env ex_in_payload (JWS RS256 ex_in_payload 2) ''ABC'' = Inr True \<and>
   verifySignature ex_env (ex_in_payload\<lparr>pl_toAccount := ''OVE-1''\<rparr>)
     (JWS RS256 ex_in_payload 2) ''ABC'' = Inr True \<and>
   verifySignature ex_env ex_in_payload (JWS RS256 ex_in_payload 1) ''ABC'' = Inr False \<and>
   verifySignature ex_env ex_in_payload (JWS HS256 ex_in_payload 2) ''ABC'' = Inr False \<and>
   verifySignature ex_env ex_in_payload Garbage ''ABC'' = Inr False"
  by (simp add: verifySignature_def verifySignature_try_def jwt_verify_def ex_env_def
      ex_in_payload_def)

text \<open>
  \<^bold>\<open>C1\<close> Signature round trip and tamper detection, at a concrete input. The bank
  signs \<open>ex_payload\<close> (amount 50) and verifies it: true. The same signature presented
  with the payload whose amount was changed to 999999 verifies as well: the check never
  compares the payload it is given with the claims inside the token.
\<close>

theorem verifySignature_accepts_tampered_amount:
  "signTransaction ex_env ex_payload = Inr (JWS RS256 ex_payload 1) \<and>
   verifySignature ex_env ex_payload (JWS RS256 ex_payload 1) ''OVE'' = Inr True \<and>
   pl_amount ex_payload = 50 \<and>
   pl_amount (ex_payload\<lparr>pl_amount := 999999\<rparr>) = 999999 \<and>
   verifySignature ex_env (ex_payload\<lparr>pl_amount := 999999\<rparr>) (JWS RS256 ex_payload 1) ''OVE''
     = Inr True"
  by (simp add: signTransaction_def jwt_sign_def verifySignature_def verifySignature_try_def
      jwt_verify_def ex_env_def ex_payload_def)

section \<open>Saving a transaction record\<close>

lemma save_transaction_result:
  "save_transaction accepted t w = (r, t', w') \<Longrightarrow>
     (r = Inr () \<and> validate_transaction t \<and> accepted \<and>
        (isNew t \<longrightarrow> transactions w (transactionId t) = None) \<and>
        t' = t\<lparr>isNew := False\<rparr> \<and>
        w' = w\<lparr>transactions := (transactions w)(transactionId t \<mapsto> t'),
                io_log := io_log w @ [TransactionSaved t']\<rparr>) \<or>
     ((\<exists>err. r = Inl err) \<and> t' = t \<and> w' = w)"
  by (auto simp: save_transaction_def Let_def split: if_splits)

lemma markCompleted_result:
  "markCompleted accepted t w = (r, t', w') \<Longrightarrow>
     (r = Inr () \<and> status t' = COMPLETED \<and> transactionId t' = transactionId t \<and>
        w' = w\<lparr>transactions := (transactions w)(transactionId t \<mapsto> t'),
                io_log := io_log w @ [TransactionSaved t']\<rparr>) \<or>
     ((\<exists>err. r = Inl err) \<and> w' = w)"
  by (auto simp: markCompleted_def updateStatus_def dest!: save_transaction_result)

lemma save_transaction_accepted:
  "validate_transaction t \<Longrightarrow> isNew t \<longrightarrow> transactions w (transactionId t) = None \<Longrightarrow>
   save_transaction True t w = (Inr (), t\<lparr>isNew := False\<rparr>, record_written (t\<lparr>isNew := False\<rparr>) w)"
  by (auto simp: save_transaction_def record_written_def Let_def)

lemma save_transaction_refused:
  assumes "\<not> accepted \<or> \<not> validate_transaction t \<or>
           (isNew t \<and> transactions w (transactionId t) \<noteq> None)"
  shows "\<exists>err. save_transaction accepted t w = (Inl err, t, w)"
  using assms by (auto simp: save_transaction_def)

lemma balance_written_transactions [simp]:
  "transactions (balance_written a v w) = transactions w"
  by (simp add: balance_written_def)

lemma markInProgress_accepted:
  assumes "validate_transaction t" and "\<not> isNew t"
  shows "markInProgress True t w =
     (Inr (), t\<lparr>status := IN_PROGRESS, errorCode := None, errorMessage := None\<rparr>,
      record_written (t\<lparr>status := IN_PROGRESS, errorCode := None, errorMessage := None\<rparr>) w)"
proof -
  have v: "validate_transaction (t\<lparr>status := IN_PROGRESS, errorCode := None, errorMessage := None\<rparr>)"
    using assms(1) by (simp add: validate_transaction_def)
  have n: "isNew (t\<lparr>status := IN_PROGRESS, errorCode := None, errorMessage := None\<rparr>) \<longrightarrow>
      transactions w (transactionId (t\<lparr>status := IN_PROGRESS, errorCode := None, errorMessage := None\<rparr>)) = None"
    using assms(2) by simp
  have i: "t\<lparr>status := IN_PROGRESS, errorCode := None, errorMessage := None, isNew := False\<rparr> =
           t\<lparr>status := IN_PROGRESS, errorCode := None, errorMessage := None\<rparr>"
    using assms(2) by simp
  show ?thesis
    using save_transaction_accepted [OF v n] by (simp add: markInProgress_def updateStatus_def i)
qed

lemma markFailed_accepted:
  assumes "validate_transaction t" and "\<not> isNew t"
  shows "markFailed True t code msg w =
     (Inr (), t\<lparr>status := FAILED, errorCode := Some code, errorMessage := Some msg\<rparr>,
      record_written (t\<lparr>status := FAILED, errorCode := Some code, errorMessage := Some msg\<rparr>) w)"
proof -
  have v: "validate_transaction (t\<lparr>status := FAILED, errorCode := Some code, errorMessage := Some msg\<rparr>)"
    using assms(1) by (simp add: validate_transaction_def)
  have n: "isNew (t\<lparr>status := FAILED, errorCode := Some code, errorMessage := Some msg\<rparr>) \<longrightarrow>
      transactions w (transactionId (t\<lparr>status := FAILED, errorCode := Some code, errorMessage := Some msg\<rparr>)) = None"
    using assms(2) by simp
  have i: "t\<lparr>status := FAILED, errorCode := Some code, errorMessage := Some msg, isNew := False\<rparr> =
           t\<lparr>status := FAILED, errorCode := Some code, errorMessage := Some msg\<rparr>"
    using assms(2) by simp
  show ?thesis
    using save_transaction_accepted [OF v n] by (simp add: markFailed_def updateStatus_def i)
qed

lemma record_written_simps [simp]:
  "transactions (record_written t w) = (transactions w)(transactionId t \<mapsto> t)"
  "accounts (record_written t w) = accounts w"
  "io_log (record_written t w) = io_log w @ [TransactionSaved t]"
  by (simp_all add: record_written_def)

lemma balance_written_simps [simp]:
  "accounts (balance_written a v w) = (accounts w)(accountNumber a \<mapsto> a\<lparr>balance := v\<rparr>)"
  "io_log (balance_written a v w) = io_log w @ [AccountSaved (accountNumber a) v]"
  by (simp_all add: balance_written_def)

section \<open>Internal transfers\<close>

text \<open>Once the checks of the handler have passed, what is left is the three awaited
  steps.\<close>

lemma internal_transfer_checks_passed:
  assumes "validate_internal b" and "accounts w (ib_fromAccount b) = Some s" and "user s = uid"
    and "accounts w (ib_toAccount b) = Some r" and "acct_currency s = acct_currency r"
    and "ib_amount b \<le> balance s"
  shows "internal_transfer e uid uuid b w =
           internal_process e s r
             (new_Transaction uuid (accountNumber s) (accountNumber r) (BANK_PREFIX e)
                (BANK_PREFIX e) (ib_amount b) (acct_currency s) (trim (ib_description b))
                True None uid)
             (ib_amount b) w"
  using assms by (simp add: internal_transfer_def hasSufficientFunds_def)

text \<open>
  \<^bold>\<open>C2\<close> (as amended) Internal transfer: three separate writes, no rollback. Take an
  internal transfer request whose amount is a JSON number, whose sender and recipient
  are two different accounts and which passes every check, with sender document \<open>s\<close>,
  recipient document \<open>r\<close> and new record \<open>t\<close>. The handler issues the debit of the
  sender, the credit of the recipient and the write of the record as \<^verbatim>\<open>COMPLETED\<close>, in
  this order, each committed on its own; the balances are computed in double
  arithmetic.
  \<^item> The debit write refused: the error is passed on and nothing is persisted.
  \<^item> The debit accepted and the credit write refused: the error is passed on and the
    debit stays persisted (\<open>w1\<close>).
  \<^item> Debit and credit accepted and the record not saved (the write refused, the record
    invalid for its schema, or its identifier in use): the error is passed on, debit
    and credit stay persisted (\<open>w2\<close>) and no record is written.
  \<^item> All three accepted (the record valid, its identifier unused): the answer is 201
    with the \<^verbatim>\<open>COMPLETED\<close> record, and the world holds the debit, the credit and the
    record.
  In \<open>w2\<close> the sender's account holds the double nearest to its balance minus the amount,
  the recipient's the double nearest to its balance plus the amount, and every other
  account is as before.
\<close>

theorem internal_transfer_three_writes:
  assumes "validate_internal b" and "accounts w (ib_fromAccount b) = Some s" and "user s = uid"
    and "accounts w (ib_toAccount b) = Some r" and "acct_currency s = acct_currency r"
    and "ib_amount b \<le> balance s" and "0 \<le> balance r"
    and "t = new_Transaction uuid (accountNumber s) (accountNumber r) (BANK_PREFIX e)
               (BANK_PREFIX e) (ib_amount b) (acct_currency s) (trim (ib_description b))
               True None uid"
    and "w1 = balance_written s (js_sub (balance s) (ib_amount b)) w"
    and "w2 = balance_written r (js_add (balance r) (ib_amount b)) w1"
    and "accountNumber s = ib_fromAccount b" and "accountNumber r = ib_toAccount b"
    and "ib_fromAccount b \<noteq> ib_toAccount b"
  shows
   "(\<not> db_accepts e Internal_debit \<longrightarrow>
       internal_transfer e uid uuid b w = (Next StorageError, w)) \<and>
    (db_accepts e Internal_debit \<and> \<not> db_accepts e Internal_credit \<longrightarrow>
       internal_transfer e uid uuid b w = (Next StorageError, w1)) \<and>
    (db_accepts e Internal_debit \<and> db_accepts e Internal_credit \<and>
     (\<not> db_accepts e Internal_markCompleted \<or> \<not> validate_transaction t \<or>
      transactions w uuid \<noteq> None) \<longrightarrow>
       (\<exists>err. internal_transfer e uid uuid b w = (Next err, w2))) \<and>
    (db_accepts e Internal_debit \<and> db_accepts e Internal_credit \<and>
     db_accepts e Internal_markCompleted \<and> validate_transaction t \<and>
     transactions w uuid = None \<longrightarrow>
       internal_transfer e uid uuid b w =
         (Json 201 (InternalDone ''Transaction completed successfully''
            (t\<lparr>status := COMPLETED, isNew := False\<rparr>)),
          record_written (t\<lparr>status := COMPLETED, isNew := False\<rparr>) w2)) \<and>
    accounts w2 (ib_fromAccount b) = Some (s\<lparr>balance := js_sub (balance s) (ib_amount b)\<rparr>) \<and>
    accounts w2 (ib_toAccount b) = Some (r\<lparr>balance := js_add (balance r) (ib_amount b)\<rparr>) \<and>
    (\<forall>k. k \<noteq> ib_fromAccount b \<and> k \<noteq> ib_toAccount b \<longrightarrow> accounts w2 k = accounts w k)"
proof -
  have pos: "0 < ib_amount b"
    using assms(1) cent_positive by (simp add: validate_internal_def)
  have c5: "accounts w2 (ib_fromAccount b) = Some (s\<lparr>balance := js_sub (balance s) (ib_amount b)\<rparr>)"
    "accounts w2 (ib_toAccount b) = Some (r\<lparr>balance := js_add (balance r) (ib_amount b)\<rparr>)"
    "\<forall>k. k \<noteq> ib_fromAccount b \<and> k \<noteq> ib_toAccount b \<longrightarrow> accounts w2 k = accounts w k"
    using assms(9-13) by simp_all
  have ip: "internal_transfer e uid uuid b w = internal_process e s r t (ib_amount b) w"
    using internal_transfer_checks_passed [OF assms(1-6)] assms(8) by simp
  have c1: "\<not> db_accepts e Internal_debit \<Longrightarrow>
       internal_process e s r t (ib_amount b) w = (Next StorageError, w)"
    using pos assms(6) by (simp add: internal_process_def debit_refused)
  have c2: "db_accepts e Internal_debit \<Longrightarrow> \<not> db_accepts e Internal_credit \<Longrightarrow>
       internal_process e s r t (ib_amount b) w = (Next StorageError, w1)"
    using pos assms(6,7,9) by (simp add: internal_process_def debit_accepted credit_refused)
  have t_simps: "t\<lparr>status := COMPLETED, errorCode := None, errorMessage := None\<rparr> =
      t\<lparr>status := COMPLETED\<rparr>" "isNew t" "transactionId t = uuid"
    using assms(8) by (simp_all add: new_Transaction_def)
  have c3: "db_accepts e Internal_debit \<Longrightarrow> db_accepts e Internal_credit \<Longrightarrow>
       \<not> db_accepts e Internal_markCompleted \<or> \<not> validate_transaction t \<or>
         transactions w uuid \<noteq> None \<Longrightarrow>
       \<exists>err. internal_process e s r t (ib_amount b) w = (Next err, w2)"
  proof -
    assume a: "db_accepts e Internal_debit" "db_accepts e Internal_credit"
      "\<not> db_accepts e Internal_markCompleted \<or> \<not> validate_transaction t \<or>
         transactions w uuid \<noteq> None"
    have "\<not> db_accepts e Internal_markCompleted \<or>
          \<not> validate_transaction (t\<lparr>status := COMPLETED\<rparr>) \<or>
          (isNew (t\<lparr>status := COMPLETED\<rparr>) \<and>
           transactions w2 (transactionId (t\<lparr>status := COMPLETED\<rparr>)) \<noteq> None)"
      using a(3) t_simps(2,3) assms(9,10) by (auto simp: validate_transaction_def)
    from save_transaction_refused [OF this] obtain err where
      "save_transaction (db_accepts e Internal_markCompleted) (t\<lparr>status := COMPLETED\<rparr>) w2 =
         (Inl err, t\<lparr>status := COMPLETED\<rparr>, w2)"
      by blast
    then show ?thesis
      using pos assms(6,7,9,10) a(1,2)
      by (simp add: internal_process_def debit_accepted credit_accepted markCompleted_def
          updateStatus_def t_simps(1))
  qed
  have c4: "db_accepts e Internal_debit \<Longrightarrow> db_accepts e Internal_credit \<Longrightarrow>
       db_accepts e Internal_markCompleted \<Longrightarrow> validate_transaction t \<Longrightarrow>
       transactions w uuid = None \<Longrightarrow>
       internal_process e s r t (ib_amount b) w =
         (Json 201 (InternalDone ''Transaction completed successfully''
            (t\<lparr>status := COMPLETED, isNew := False\<rparr>)),
          record_written (t\<lparr>status := COMPLETED, isNew := False\<rparr>) w2)"
  proof -
    assume a: "db_accepts e Internal_debit" "db_accepts e Internal_credit"
      "db_accepts e Internal_markCompleted" "validate_transaction t" "transactions w uuid = None"
    have v: "validate_transaction (t\<lparr>status := COMPLETED\<rparr>)"
      using a(4) by (simp add: validate_transaction_def)
    have n: "isNew (t\<lparr>status := COMPLETED\<rparr>) \<longrightarrow>
        transactions w2 (transactionId (t\<lparr>status := COMPLETED\<rparr>)) = None"
      using a(5) t_simps assms(9,10) by simp
    show ?thesis
      using pos assms(6,7,9,10) a(1-3) save_transaction_accepted [OF v n]
      by (simp add: internal_process_def debit_accepted credit_accepted markCompleted_def
          updateStatus_def t_simps(1))
  qed
  show ?thesis
    using c1 c2 c3 c4 c5 by (simp add: ip)
qed


theorem internal_transfer_three_writes_witness:
  "internal_transfer ex_env ''u1'' ''t-1'' ex_internal ex_world =
     (Json 201 (InternalDone ''Transaction completed successfully''
        ((new_Transaction ''t-1'' ''OVE-1'' ''OVE-2'' ''OVE'' ''OVE'' 50 ''EUR'' ''rent'' True None ''u1'')
           \<lparr>status := COMPLETED, isNew := False\<rparr>)),
      record_written
        ((new_Transaction ''t-1'' ''OVE-1'' ''OVE-2'' ''OVE'' ''OVE'' 50 ''EUR'' ''rent'' True None ''u1'')
           \<lparr>status := COMPLETED, isNew := False\<rparr>)
        (balance_written ex_bob 50 (balance_written ex_alice 50 ex_world))) \<and>
   internal_transfer ex_env_credit_refused ''u1'' ''t-1'' ex_internal ex_world =
     (Next StorageError, balance_written ex_alice 50 ex_world)"
proof -
  have h: "validate_internal ex_internal" "accounts ex_world (ib_fromAccount ex_internal) = Some ex_alice"
    "user ex_alice = ''u1''" "accounts ex_world (ib_toAccount ex_internal) = Some ex_bob"
    "acct_currency ex_alice = acct_currency ex_bob" "ib_amount ex_internal \<le> balance ex_alice"
    "0 \<le> balance ex_bob"
    by (simp_all add: validate_internal_def to_double_cent example_defs)
  have k: "accountNumber ex_alice = ib_fromAccount ex_internal"
    "accountNumber ex_bob = ib_toAccount ex_internal"
    "ib_fromAccount ex_internal \<noteq> ib_toAccount ex_internal"
    by (simp_all add: example_defs)
  have v: "validate_transaction
      (new_Transaction ''t-1'' ''OVE-1'' ''OVE-2'' ''OVE'' ''OVE'' 50 ''EUR'' ''rent'' True None ''u1'')"
    by (simp add: validate_transaction_def new_Transaction_def to_double_cent)
  have n: "transactions ex_world ''t-1'' = None"
    by (simp add: ex_world_def)
  note th = internal_transfer_three_writes [OF h refl refl refl k, where uuid = "''t-1''"]
  show ?thesis
    using th [where e = ex_env] th [where e = ex_env_credit_refused] v n
    by (simp add: ex_env_credit_refused_def example_defs js_add_def js_sub_def)
qed

text \<open>
  \<^bold>\<open>C2\<close> (as stated) fails. The request \<open>ex_internal\<close> passes validation; the database
  refuses the write of the credit. The handler ends in an error, and yet the sender's
  stored balance went from 100 to 50; the recipient still has 0 and no record exists.
\<close>

theorem internal_transfer_not_atomic:
  "validate_internal ex_internal \<and>
   fst (internal_transfer ex_env_credit_refused ''u1'' ''t-1'' ex_internal ex_world) =
     Next StorageError \<and>
   map_option balance (accounts ex_world ''OVE-1'') = Some 100 \<and>
   map_option balance
     (accounts (snd (internal_transfer ex_env_credit_refused ''u1'' ''t-1'' ex_internal ex_world))
        ''OVE-1'') = Some 50 \<and>
   map_option balance
     (accounts (snd (internal_transfer ex_env_credit_refused ''u1'' ''t-1'' ex_internal ex_world))
        ''OVE-2'') = Some 0 \<and>
   transactions (snd (internal_transfer ex_env_credit_refused ''u1'' ''t-1'' ex_internal ex_world))
     ''t-1'' = None"
  by (simp add: internal_transfer_def internal_process_def validate_internal_def to_double_cent
      ex_env_credit_refused_def ledger_defs record_defs example_defs)

text \<open>Sender and recipient may be the same account. The handler then holds two copies of
  the document, both read before the first write; the credit is computed from the
  balance before the debit and overwrites it. A transfer of 50 from \<^verbatim>\<open>OVE-1\<close> (balance
  100) to itself is answered 201 and leaves the balance 150.\<close>

lemma internal_transfer_to_self_overwrites_debit:
  "fst (internal_transfer ex_env ''u1'' ''t-1'' (ex_internal\<lparr>ib_toAccount := ''OVE-1''\<rparr>) ex_world) =
     Json 201 (InternalDone ''Transaction completed successfully''
       ((new_Transaction ''t-1'' ''OVE-1'' ''OVE-1'' ''OVE'' ''OVE'' 50 ''EUR'' ''rent'' True None ''u1'')
          \<lparr>status := COMPLETED, isNew := False\<rparr>)) \<and>
   map_option balance
     (accounts (snd (internal_transfer ex_env ''u1'' ''t-1''
        (ex_internal\<lparr>ib_toAccount := ''OVE-1''\<rparr>) ex_world)) ''OVE-1'') = Some 150"
  by (simp add: internal_transfer_def internal_process_def validate_internal_def to_double_cent
      ledger_defs record_defs example_defs)

section \<open>External transfers\<close>

lemmas external_defs = external_transfer_def external_process_def external_dispatch_def
  external_rejected_def external_catch_def validate_external_def to_double_cent
  signTransaction_def jwt_sign_def

lemma external_transfer_checks_passed:
  assumes "validate_external b" and "eb_toBank b \<noteq> BANK_PREFIX e"
    and "accounts w (eb_fromAccount b) = Some s" and "user s = uid"
    and "acct_currency s = eb_currency b" and "eb_amount b \<le> balance s"
  shows "external_transfer e uid uuid now b w =
           external_process e now b s
             (new_Transaction uuid (accountNumber s) (eb_toAccount b) (BANK_PREFIX e) (eb_toBank b)
                (eb_amount b) (eb_currency b) (trim (eb_description b)) False None uid) w"
  using assms by (simp add: external_transfer_def hasSufficientFunds_def)

text \<open>No step removes an entry of the log.\<close>

lemma extends_refl [simp]: "extends w w"
  by (simp add: extends_def)

lemma extends_trans: "extends w w1 \<Longrightarrow> extends w1 w2 \<Longrightarrow> extends w w2"
  by (auto simp: extends_def)

lemma credit_extends: "credit a s amt w = (r, s', w') \<Longrightarrow> extends w w'"
  by (auto simp: extends_def dest!: credit_result)

lemma save_transaction_extends: "save_transaction a t w = (r, t', w') \<Longrightarrow> extends w w'"
  by (auto simp: extends_def dest!: save_transaction_result)

lemma markFailed_extends: "markFailed a t c m w = (r, t', w') \<Longrightarrow> extends w w'"
  by (auto simp: markFailed_def updateStatus_def dest: save_transaction_extends)

lemma external_catch_extends: "extends w (snd (external_catch e err s t amt w))"
  by (auto simp: external_catch_def split: prod.splits sum.splits
      dest!: credit_extends markFailed_extends intro: extends_trans)

lemma external_rejected_extends: "extends w (snd (external_rejected e c rb s t amt w))"
  using external_catch_extends
  by (auto simp: external_rejected_def split: prod.splits sum.splits relay_body.splits option.splits
      dest!: credit_extends markFailed_extends intro: extends_trans)

lemma external_dispatch_posts:
  assumes "CENTRAL_BANK_URL e = Some url"
  shows "\<exists>l. io_log (snd (external_dispatch e pl sig s t amt w)) = io_log w @ RelayPost pl sig # l"
proof -
  let ?w1 = "w\<lparr>io_log := io_log w @ [RelayPost pl sig]\<rparr>"
  have "extends ?w1 (snd (external_dispatch e pl sig s t amt w))"
    using assms external_catch_extends [of ?w1] external_rejected_extends [of ?w1]
    by (simp add: external_dispatch_def Let_def split: relay_response.splits relay_body.splits)
  then show ?thesis
    by (auto simp: extends_def)
qed

text \<open>With the key file in place and the first three writes accepted, the handler reaches
  the dispatch with the record saved twice (as created, then signed and in progress) and
  the sender debited.\<close>

lemma external_process_until_dispatch:
  assumes "0 < eb_amount b" and "eb_amount b \<le> balance s"
    and "validate_transaction t" and "isNew t" and "transactions w (transactionId t) = None"
    and "PRIVATE_KEY e = Some (Pem k)"
    and "db_accepts e External_save" and "db_accepts e External_markInProgress"
    and "db_accepts e External_debit"
    and "pl = \<lparr>pl_transactionId = transactionId t, pl_fromBank = BANK_PREFIX e,
               pl_fromAccount = accountNumber s, pl_toBank = eb_toBank b,
               pl_toAccount = eb_toAccount b, pl_amount = eb_amount b,
               pl_currency = eb_currency b, pl_description = trim (eb_description b),
               pl_timestamp = now\<rparr>"
    and "t2 = t\<lparr>isNew := False, signature := Some (JWS RS256 pl k), status := IN_PROGRESS,
                 errorCode := None, errorMessage := None\<rparr>"
  shows "external_process e now b s t w =
           external_dispatch e pl (JWS RS256 pl k) (s\<lparr>balance := js_sub (balance s) (eb_amount b)\<rparr>) t2
             (eb_amount b)
             (balance_written s (js_sub (balance s) (eb_amount b))
                (record_written t2 (record_written (t\<lparr>isNew := False\<rparr>) w)))"
proof -
  have s1: "save_transaction True t w = (Inr (), t\<lparr>isNew := False\<rparr>, record_written (t\<lparr>isNew := False\<rparr>) w)"
    using assms(3,4,5) by (simp add: save_transaction_accepted)
  have sg: "signTransaction e pl = Inr (JWS RS256 pl k)"
    using assms(6) by (simp add: signTransaction_def jwt_sign_def)
  have v: "validate_transaction (t\<lparr>isNew := False, signature := Some (JWS RS256 pl k)\<rparr>)"
    using assms(3) by (simp add: validate_transaction_def)
  have s2: "markInProgress True (t\<lparr>isNew := False, signature := Some (JWS RS256 pl k)\<rparr>)
              (record_written (t\<lparr>isNew := False\<rparr>) w) =
            (Inr (), t2, record_written t2 (record_written (t\<lparr>isNew := False\<rparr>) w))"
    using markInProgress_accepted [OF v] assms(11) by simp
  show ?thesis
    using assms(1,2,7,8,9) s1 sg s2
    by (simp add: external_process_def Let_def assms(10) [symmetric] debit_accepted)
qed

lemma external_transfer_until_dispatch:
  assumes "validate_external b" and "eb_toBank b \<noteq> BANK_PREFIX e"
    and "accounts w (eb_fromAccount b) = Some s" and "user s = uid"
    and "acct_currency s = eb_currency b" and "eb_amount b \<le> balance s"
    and "t = new_Transaction uuid (accountNumber s) (eb_toAccount b) (BANK_PREFIX e) (eb_toBank b)
               (eb_amount b) (eb_currency b) (trim (eb_description b)) False None uid"
    and "validate_transaction t" and "transactions w uuid = None"
    and "PRIVATE_KEY e = Some (Pem k)"
    and "db_accepts e External_save" and "db_accepts e External_markInProgress"
    and "db_accepts e External_debit"
    and "pl = \<lparr>pl_transactionId = uuid, pl_fromBank = BANK_PREFIX e,
               pl_fromAccount = accountNumber s, pl_toBank = eb_toBank b,
               pl_toAccount = eb_toAccount b, pl_amount = eb_amount b,
               pl_currency = eb_currency b, pl_description = trim (eb_description b),
               pl_timestamp = now\<rparr>"
    and "t2 = t\<lparr>isNew := False, signature := Some (JWS RS256 pl k), status := IN_PROGRESS\<rparr>"
  shows "external_transfer e uid uuid now b w =
           external_dispatch e pl (JWS RS256 pl k) (s\<lparr>balance := js_sub (balance s) (eb_amount b)\<rparr>) t2
             (eb_amount b)
             (balance_written s (js_sub (balance s) (eb_amount b))
                (record_written t2 (record_written (t\<lparr>isNew := False\<rparr>) w)))"
proof -
  have pos: "0 < eb_amount b"
    using assms(1) cent_positive by (simp add: validate_external_def)
  have tf: "isNew t" "transactionId t = uuid" "errorCode t = None" "errorMessage t = None"
    using assms(7) by (simp_all add: new_Transaction_def)
  have t2: "t2 = t\<lparr>isNew := False, signature := Some (JWS RS256 pl k), status := IN_PROGRESS,
                  errorCode := None, errorMessage := None\<rparr>"
    using tf(3,4) assms(15) by simp
  have "external_transfer e uid uuid now b w = external_process e now b s t w"
    using external_transfer_checks_passed [OF assms(1-6)] assms(7) by simp
  also have "\<dots> = external_dispatch e pl (JWS RS256 pl k) (s\<lparr>balance := js_sub (balance s) (eb_amount b)\<rparr>)
      t2 (eb_amount b)
      (balance_written s (js_sub (balance s) (eb_amount b))
         (record_written t2 (record_written (t\<lparr>isNew := False\<rparr>) w)))"
    using assms(9,14) tf(2)
    by (intro external_process_until_dispatch [OF pos assms(6) assms(8) tf(1) _ assms(10)
          assms(11,12,13) _ t2]) simp_all
  finally show ?thesis .
qed

text \<open>
  \<^bold>\<open>C8\<close> (as amended) Step order of an external transfer. For an external transfer
  request that passes every check, with the private key in place, the relay's URL set
  and the first three writes accepted, the first four effects of the handler are, in
  this order: the record persisted as \<^verbatim>\<open>PENDING\<close>; the record persisted as
  \<^verbatim>\<open>IN_PROGRESS\<close> carrying the signature of the canonical payload; the sender's balance
  written, lowered by the amount in double arithmetic; the signed payload posted to the
  relay.
\<close>

theorem external_transfer_step_order:
  assumes "validate_external b" and "eb_toBank b \<noteq> BANK_PREFIX e"
    and "accounts w (eb_fromAccount b) = Some s" and "user s = uid"
    and "acct_currency s = eb_currency b" and "eb_amount b \<le> balance s"
    and "t = new_Transaction uuid (accountNumber s) (eb_toAccount b) (BANK_PREFIX e) (eb_toBank b)
               (eb_amount b) (eb_currency b) (trim (eb_description b)) False None uid"
    and "validate_transaction t" and "transactions w uuid = None"
    and "PRIVATE_KEY e = Some (Pem k)"
    and "db_accepts e External_save" and "db_accepts e External_markInProgress"
    and "db_accepts e External_debit"
    and "pl = \<lparr>pl_transactionId = uuid, pl_fromBank = BANK_PREFIX e,
               pl_fromAccount = accountNumber s, pl_toBank = eb_toBank b,
               pl_toAccount = eb_toAccount b, pl_amount = eb_amount b,
               pl_currency = eb_currency b, pl_description = trim (eb_description b),
               pl_timestamp = now\<rparr>"
    and "CENTRAL_BANK_URL e = Some url"
  shows "take 4 (new_effects w (snd (external_transfer e uid uuid now b w))) =
           [TransactionSaved (t\<lparr>isNew := False\<rparr>),
            TransactionSaved (t\<lparr>isNew := False, signature := Some (JWS RS256 pl k),
                                status := IN_PROGRESS\<rparr>),
            AccountSaved (accountNumber s) (js_sub (balance s) (eb_amount b)),
            RelayPost pl (JWS RS256 pl k)] \<and>
         map step_of (take 4 (new_effects w (snd (external_transfer e uid uuid now b w)))) =
           [WriteTransaction PENDING, WriteTransaction IN_PROGRESS, WriteBalance, PostToRelay]"
proof -
  have st: "status t = PENDING"
    using assms(7) by (simp add: new_Transaction_def)
  define t2 where "t2 = t\<lparr>isNew := False, signature := Some (JWS RS256 pl k), status := IN_PROGRESS\<rparr>"
  define w3 where "w3 = balance_written s (js_sub (balance s) (eb_amount b))
                (record_written t2 (record_written (t\<lparr>isNew := False\<rparr>) w))"
  have eq: "external_transfer e uid uuid now b w =
      external_dispatch e pl (JWS RS256 pl k) (s\<lparr>balance := js_sub (balance s) (eb_amount b)\<rparr>)
        t2 (eb_amount b) w3"
    unfolding w3_def by (rule external_transfer_until_dispatch [OF assms(1-14) t2_def])
  obtain l where l: "io_log (snd (external_transfer e uid uuid now b w)) =
      io_log w3 @ RelayPost pl (JWS RS256 pl k) # l"
    using external_dispatch_posts [OF assms(15)] eq by metis
  have "new_effects w (snd (external_transfer e uid uuid now b w)) =
      [TransactionSaved (t\<lparr>isNew := False\<rparr>), TransactionSaved t2,
       AccountSaved (accountNumber s) (js_sub (balance s) (eb_amount b)), RelayPost pl (JWS RS256 pl k)] @ l"
    by (simp add: new_effects_def l w3_def)
  then show ?thesis
    using st by (simp add: t2_def)
qed

theorem external_transfer_step_order_witness:
  "map step_of (take 4 (new_effects ex_world
      (snd (external_transfer ex_env ''u1'' ''t-1'' ''now'' ex_external ex_world)))) =
     [WriteTransaction PENDING, WriteTransaction IN_PROGRESS, WriteBalance, PostToRelay]"
proof -
  have h: "validate_external ex_external" "eb_toBank ex_external \<noteq> BANK_PREFIX ex_env"
    "accounts ex_world (eb_fromAccount ex_external) = Some ex_alice" "user ex_alice = ''u1''"
    "acct_currency ex_alice = eb_currency ex_external" "eb_amount ex_external \<le> balance ex_alice"
    by (simp_all add: validate_external_def to_double_cent example_defs)
  have v: "validate_transaction
      (new_Transaction ''t-1'' (accountNumber ex_alice) (eb_toAccount ex_external)
         (BANK_PREFIX ex_env) (eb_toBank ex_external) (eb_amount ex_external)
         (eb_currency ex_external) (trim (eb_description ex_external)) False None ''u1'')"
    by (simp add: validate_transaction_def new_Transaction_def to_double_cent example_defs)
  have k: "transactions ex_world ''t-1'' = None" "PRIVATE_KEY ex_env = Some (Pem 1)"
    "db_accepts ex_env External_save" "db_accepts ex_env External_markInProgress"
    "db_accepts ex_env External_debit"
    by (simp_all add: example_defs)
  have u: "CENTRAL_BANK_URL ex_env = Some ''http://localhost:5000''"
    by (simp add: example_defs)
  from external_transfer_step_order [OF h refl v k refl u, of "''now''"] show ?thesis
    by (rule conjunct2)
qed

text \<open>
  \<^bold>\<open>C8\<close> (as stated) fails. In the run of \<open>ex_external\<close> (every step succeeds) the
  handler writes the record as \<^verbatim>\<open>IN_PROGRESS\<close> before it writes the sender's balance:
  the debit is the third step, not the second.
\<close>

theorem external_transfer_not_in_specified_order:
  "map step_of (new_effects ex_world
      (snd (external_transfer ex_env ''u1'' ''t-1'' ''now'' ex_external ex_world))) =
     [WriteTransaction PENDING, WriteTransaction IN_PROGRESS, WriteBalance, PostToRelay] \<and>
   map step_of (new_effects ex_world
      (snd (external_transfer ex_env ''u1'' ''t-1'' ''now'' ex_external ex_world))) \<noteq>
     specified_external_order"
  by (simp add: external_defs ledger_defs record_defs example_defs new_effects_def
      specified_external_order_def)

subsection \<open>Compensation\<close>

text \<open>The relay rejects with a well-formed body \<^verbatim>\<open>{error: {code, message}}\<close> and the two
  writes of the rejection branch are accepted: the answer carries the relay's status,
  code and message; the sender's stored balance is the debited balance plus the amount
  (the balance from before the debit wherever the two roundings cancel); the record is
  \<^verbatim>\<open>FAILED\<close> with the relay's code and message; and the credit-back is written before
  the record.\<close>

lemma external_transfer_relay_rejects:
  assumes "validate_external b" and "eb_toBank b \<noteq> BANK_PREFIX e"
    and "accounts w (eb_fromAccount b) = Some s" and "user s = uid"
    and "acct_currency s = eb_currency b" and "eb_amount b \<le> balance s"
    and "t = new_Transaction uuid (accountNumber s) (eb_toAccount b) (BANK_PREFIX e) (eb_toBank b)
               (eb_amount b) (eb_currency b) (trim (eb_description b)) False None uid"
    and "validate_transaction t" and "transactions w uuid = None"
    and "PRIVATE_KEY e = Some (Pem k)"
    and "db_accepts e External_save" and "db_accepts e External_markInProgress"
    and "db_accepts e External_debit"
    and "pl = \<lparr>pl_transactionId = uuid, pl_fromBank = BANK_PREFIX e,
               pl_fromAccount = accountNumber s, pl_toBank = eb_toBank b,
               pl_toAccount = eb_toAccount b, pl_amount = eb_amount b,
               pl_currency = eb_currency b, pl_description = trim (eb_description b),
               pl_timestamp = now\<rparr>"
    and "t2 = t\<lparr>isNew := False, signature := Some (JWS RS256 pl k), status := IN_PROGRESS\<rparr>"
    and "CENTRAL_BANK_URL e = Some url"
    and "relay e pl (JWS RS256 pl k) = RelayHttp c (BodyJson (Some (code, msg)))"
    and "\<not> (200 \<le> c \<and> c \<le> 299)"
    and "db_accepts e External_rejected_credit" and "db_accepts e External_rejected_markFailed"
    and "t3 = t2\<lparr>status := FAILED, errorCode := Some code, errorMessage := Some msg\<rparr>"
    and "w' = snd (external_transfer e uid uuid now b w)"
  shows "fst (external_transfer e uid uuid now b w) = Json c (ErrorBody code msg (Some uuid))"
    and "accounts w' = (accounts w)(accountNumber s \<mapsto> s\<lparr>balance := js_add (js_sub (balance s) (eb_amount b)) (eb_amount b)\<rparr>)"
    and "transactions w' = (transactions w)(uuid \<mapsto> t3)"
    and "new_effects w w' =
           [TransactionSaved (t\<lparr>isNew := False\<rparr>), TransactionSaved t2,
            AccountSaved (accountNumber s) (js_sub (balance s) (eb_amount b)),
            RelayPost pl (JWS RS256 pl k),
            AccountSaved (accountNumber s) (js_add (js_sub (balance s) (eb_amount b)) (eb_amount b)),
            TransactionSaved t3]"
proof -
  have pos: "0 < eb_amount b"
    using assms(1) cent_positive by (simp add: validate_external_def)
  have tf: "transactionId t = uuid"
    using assms(7) by (simp add: new_Transaction_def)
  have v2: "validate_transaction t2" "\<not> isNew t2" "transactionId t2 = uuid"
    using assms(8,15) tf by (simp_all add: validate_transaction_def)
  have nb: "0 \<le> balance (s\<lparr>balance := js_sub (balance s) (eb_amount b)\<rparr>)"
    using assms(6) to_double_nonneg [of "balance s - eb_amount b"] by (simp add: js_sub_def)
  have eq: "external_transfer e uid uuid now b w =
      (Json c (ErrorBody code msg (Some uuid)),
       record_written t3
         (balance_written (s\<lparr>balance := js_sub (balance s) (eb_amount b)\<rparr>)
            (js_add (js_sub (balance s) (eb_amount b)) (eb_amount b))
            ((balance_written s (js_sub (balance s) (eb_amount b))
                (record_written t2 (record_written (t\<lparr>isNew := False\<rparr>) w)))
             \<lparr>io_log := io_log (balance_written s (js_sub (balance s) (eb_amount b))
                (record_written t2 (record_written (t\<lparr>isNew := False\<rparr>) w))) @
                [RelayPost pl (JWS RS256 pl k)]\<rparr>)))"
    using assms(16-21) pos v2(3)
    by (simp add: external_transfer_until_dispatch [OF assms(1-15)] external_dispatch_def
        external_rejected_def Let_def credit_accepted [OF pos nb] markFailed_accepted [OF v2(1,2)])
  show "fst (external_transfer e uid uuid now b w) = Json c (ErrorBody code msg (Some uuid))"
    by (simp add: eq)
  show "accounts w' = (accounts w)(accountNumber s \<mapsto> s\<lparr>balance := js_add (js_sub (balance s) (eb_amount b)) (eb_amount b)\<rparr>)"
    by (simp add: assms(22) eq)
  show "transactions w' = (transactions w)(uuid \<mapsto> t3)"
    using tf v2(3) by (simp add: assms(22) eq assms(21) assms(15))
  show "new_effects w w' =
           [TransactionSaved (t\<lparr>isNew := False\<rparr>), TransactionSaved t2,
            AccountSaved (accountNumber s) (js_sub (balance s) (eb_amount b)),
            RelayPost pl (JWS RS256 pl k),
            AccountSaved (accountNumber s) (js_add (js_sub (balance s) (eb_amount b)) (eb_amount b)),
            TransactionSaved t3]"
    by (simp add: assms(22) eq new_effects_def)
qed

text \<open>The relay cannot be reached and the two writes of the \<^verbatim>\<open>catch\<close> block are accepted:
  the error is passed on; the sender's stored balance is the debited balance plus the
  amount; the record is \<^verbatim>\<open>FAILED\<close> with the fixed code \<^verbatim>\<open>CENTRAL_BANK_ERROR\<close>; and the
  credit-back is written before the record.\<close>

lemma external_transfer_relay_unreachable:
  assumes "validate_external b" and "eb_toBank b \<noteq> BANK_PREFIX e"
    and "accounts w (eb_fromAccount b) = Some s" and "user s = uid"
    and "acct_currency s = eb_currency b" and "eb_amount b \<le> balance s"
    and "t = new_Transaction uuid (accountNumber s) (eb_toAccount b) (BANK_PREFIX e) (eb_toBank b)
               (eb_amount b) (eb_currency b) (trim (eb_description b)) False None uid"
    and "validate_transaction t" and "transactions w uuid = None"
    and "PRIVATE_KEY e = Some (Pem k)"
    and "db_accepts e External_save" and "db_accepts e External_markInProgress"
    and "db_accepts e External_debit"
    and "pl = \<lparr>pl_transactionId = uuid, pl_fromBank = BANK_PREFIX e,
               pl_fromAccount = accountNumber s, pl_toBank = eb_toBank b,
               pl_toAccount = eb_toAccount b, pl_amount = eb_amount b,
               pl_currency = eb_currency b, pl_description = trim (eb_description b),
               pl_timestamp = now\<rparr>"
    and "t2 = t\<lparr>isNew := False, signature := Some (JWS RS256 pl k), status := IN_PROGRESS\<rparr>"
    and "CENTRAL_BANK_URL e = Some url"
    and "relay e pl (JWS RS256 pl k) = RelayUnreachable"
    and "db_accepts e External_catch_credit" and "db_accepts e External_catch_markFailed"
    and "t3 = t2\<lparr>status := FAILED, errorCode := Some ''CENTRAL_BANK_ERROR'',
                  errorMessage := Some ''Failed to communicate with central bank''\<rparr>"
    and "w' = snd (external_transfer e uid uuid now b w)"
  shows "fst (external_transfer e uid uuid now b w) = Next FetchError"
    and "accounts w' = (accounts w)(accountNumber s \<mapsto> s\<lparr>balance := js_add (js_sub (balance s) (eb_amount b)) (eb_amount b)\<rparr>)"
    and "transactions w' = (transactions w)(uuid \<mapsto> t3)"
    and "new_effects w w' =
           [TransactionSaved (t\<lparr>isNew := False\<rparr>), TransactionSaved t2,
            AccountSaved (accountNumber s) (js_sub (balance s) (eb_amount b)),
            RelayPost pl (JWS RS256 pl k),
            AccountSaved (accountNumber s) (js_add (js_sub (balance s) (eb_amount b)) (eb_amount b)),
            TransactionSaved t3]"
proof -
  have pos: "0 < eb_amount b"
    using assms(1) cent_positive by (simp add: validate_external_def)
  have tf: "transactionId t = uuid"
    using assms(7) by (simp add: new_Transaction_def)
  have v2: "validate_transaction t2" "\<not> isNew t2" "transactionId t2 = uuid"
    using assms(8,15) tf by (simp_all add: validate_transaction_def)
  have nb: "0 \<le> balance (s\<lparr>balance := js_sub (balance s) (eb_amount b)\<rparr>)"
    using assms(6) to_double_nonneg [of "balance s - eb_amount b"] by (simp add: js_sub_def)
  have eq: "external_transfer e uid uuid now b w =
      (Next FetchError,
       record_written t3
         (balance_written (s\<lparr>balance := js_sub (balance s) (eb_amount b)\<rparr>)
            (js_add (js_sub (balance s) (eb_amount b)) (eb_amount b))
            ((balance_written s (js_sub (balance s) (eb_amount b))
                (record_written t2 (record_written (t\<lparr>isNew := False\<rparr>) w)))
             \<lparr>io_log := io_log (balance_written s (js_sub (balance s) (eb_amount b))
                (record_written t2 (record_written (t\<lparr>isNew := False\<rparr>) w))) @
                [RelayPost pl (JWS RS256 pl k)]\<rparr>)))"
    using assms(16-20) pos v2(3)
    by (simp add: external_transfer_until_dispatch [OF assms(1-15)] external_dispatch_def
        external_catch_def Let_def credit_accepted [OF pos nb] markFailed_accepted [OF v2(1,2)])
  show "fst (external_transfer e uid uuid now b w) = Next FetchError"
    by (simp add: eq)
  show "accounts w' = (accounts w)(accountNumber s \<mapsto> s\<lparr>balance := js_add (js_sub (balance s) (eb_amount b)) (eb_amount b)\<rparr>)"
    by (simp add: assms(21) eq)
  show "transactions w' = (transactions w)(uuid \<mapsto> t3)"
    using tf v2(3) by (simp add: assms(21) eq assms(20) assms(15))
  show "new_effects w w' =
           [TransactionSaved (t\<lparr>isNew := False\<rparr>), TransactionSaved t2,
            AccountSaved (accountNumber s) (js_sub (balance s) (eb_amount b)),
            RelayPost pl (JWS RS256 pl k),
            AccountSaved (accountNumber s) (js_add (js_sub (balance s) (eb_amount b)) (eb_amount b)),
            TransactionSaved t3]"
    by (simp add: assms(21) eq new_effects_def)
qed

text \<open>
  \<^bold>\<open>C3\<close> External outgoing compensation, at a concrete input. Account \<^verbatim>\<open>OVE-1\<close>
  holds 100 and sends 50; every write is accepted; the relay answers 429 with a JSON
  body that has no \<^verbatim>\<open>error\<close> member. The rejection branch credits 50 back, then fails
  to read \<^verbatim>\<open>errorData.error.code\<close>; the \<^verbatim>\<open>catch\<close> around it credits 50 again. The
  sender ends with 150, not with the 100 from before the debit; the record is
  \<^verbatim>\<open>FAILED\<close> with \<^verbatim>\<open>CENTRAL_BANK_ERROR\<close>; the log shows two balance writes after the
  post.
\<close>

theorem external_rejection_credits_twice:
  "fst (external_transfer ex_env_relay_429 ''u1'' ''t-1'' ''now'' ex_external ex_world) =
     Next TypeError \<and>
   map_option balance (accounts ex_world ''OVE-1'') = Some 100 \<and>
   map_option balance
     (accounts (snd (external_transfer ex_env_relay_429 ''u1'' ''t-1'' ''now'' ex_external ex_world))
        ''OVE-1'') = Some 150 \<and>
   map_option status
     (transactions (snd (external_transfer ex_env_relay_429 ''u1'' ''t-1'' ''now'' ex_external ex_world))
        ''t-1'') = Some FAILED \<and>
   map_option errorCode
     (transactions (snd (external_transfer ex_env_relay_429 ''u1'' ''t-1'' ''now'' ex_external ex_world))
        ''t-1'') = Some (Some ''CENTRAL_BANK_ERROR'') \<and>
   map step_of (new_effects ex_world
      (snd (external_transfer ex_env_relay_429 ''u1'' ''t-1'' ''now'' ex_external ex_world))) =
     [WriteTransaction PENDING, WriteTransaction IN_PROGRESS, WriteBalance, PostToRelay,
      WriteBalance, WriteBalance, WriteTransaction FAILED]"
  by (simp add: external_defs ledger_defs record_defs example_defs ex_env_relay_429_def
      new_effects_def)

text \<open>The same double credit with a well-formed rejection, when the database refuses the
  status write of the rejection branch.\<close>

lemma refused_status_write_doubles_credit:
  "fst (external_transfer (ex_env_relay_rejects\<lparr>db_accepts := (\<lambda>s. s \<noteq> External_rejected_markFailed)\<rparr>)
          ''u1'' ''t-1'' ''now'' ex_external ex_world) = Next StorageError \<and>
   map_option balance
     (accounts (snd (external_transfer
         (ex_env_relay_rejects\<lparr>db_accepts := (\<lambda>s. s \<noteq> External_rejected_markFailed)\<rparr>)
         ''u1'' ''t-1'' ''now'' ex_external ex_world)) ''OVE-1'') = Some 150"
  by (simp add: external_defs ledger_defs record_defs example_defs ex_env_relay_rejects_def)

section \<open>Incoming transfers\<close>

lemmas incoming_defs = incoming_transfer_def incoming_try_def incoming_accept_def
  verifySignature_def verifySignature_try_def jwt_verify_def signed_request_def
  ex_incoming_def ex_in_payload_def

lemma incoming_accept_result:
  "incoming_accept e b r w = (res, w') \<Longrightarrow>
     (res = Inr (Json 200 (IncomingDone ''Transaction processed successfully''
               (in_transactionId b) COMPLETED)) \<and>
      (\<exists>t. status t = COMPLETED \<and> transactionId t = in_transactionId b \<and>
        w' = record_written t (balance_written r (js_add (balance r) (in_amount b)) w))) \<or>
     ((\<exists>err. res = Inl err) \<and>
      (w' = w \<or> w' = balance_written r (js_add (balance r) (in_amount b)) w))"
  unfolding incoming_accept_def
  by (auto split: prod.splits sum.splits dest!: credit_result markCompleted_result
      simp: new_Transaction_def record_written_def balance_written_def)

lemma verifySignature_boolean: "\<exists>v. verifySignature e pl sig fromB = Inr v"
  by (auto simp: verifySignature_def split: sum.splits)

text \<open>A request that a check turns away changes nothing.\<close>

lemma incoming_rejected_no_trace:
  assumes "in_toBank b \<noteq> BANK_PREFIX e \<or>
           (transactions w (in_transactionId b) = None \<and>
            (verifySignature e pl (in_signature b) (in_fromBank b) = Inr False \<or>
             accounts w (in_toAccount b) = None \<or>
             (\<exists>r. accounts w (in_toAccount b) = Some r \<and> acct_currency r \<noteq> in_currency b)))"
  shows "\<exists>c code msg. c \<in> {400, 404} \<and>
           incoming_transfer e b w = (Json c (ErrorBody code msg (Some (in_transactionId b))), w)"
proof -
  let ?pl = "\<lparr>pl_transactionId = in_transactionId b, pl_fromBank = in_fromBank b,
              pl_fromAccount = in_fromAccount b, pl_toBank = in_toBank b,
              pl_toAccount = in_toAccount b, pl_amount = in_amount b,
              pl_currency = in_currency b, pl_description = in_description b,
              pl_timestamp = in_timestamp b\<rparr>"
  obtain v where v: "verifySignature e ?pl (in_signature b) (in_fromBank b) = Inr v"
    using verifySignature_boolean by blast
  have same: "verifySignature e pl (in_signature b) (in_fromBank b) = Inr v"
    using v verifySignature_ignores_payload [of e pl _ _ ?pl] by simp
  show ?thesis
    using assms v same
    by (cases v) (auto simp: incoming_transfer_def incoming_try_def Let_def)
qed

text \<open>Whatever the handler stores is a \<^verbatim>\<open>COMPLETED\<close> record.\<close>

lemma incoming_transfer_result:
  "incoming_transfer e b w = (res, w') \<Longrightarrow>
     w' = w \<or>
     (\<exists>r. accounts w (in_toAccount b) = Some r \<and>
        ((res = Json 500 (ErrorBody ''TRANSACTION_PROCESSING_ERROR''
                  ''Failed to process transaction'' (Some (in_transactionId b))) \<and>
          w' = balance_written r (js_add (balance r) (in_amount b)) w) \<or>
         (res = Json 200 (IncomingDone ''Transaction processed successfully''
                  (in_transactionId b) COMPLETED) \<and>
          (\<exists>t. status t = COMPLETED \<and> transactionId t = in_transactionId b \<and>
             w' = record_written t (balance_written r (js_add (balance r) (in_amount b)) w)))))"
  by (auto simp: incoming_transfer_def incoming_try_def Let_def
      split: if_splits option.splits sum.splits prod.splits dest!: incoming_accept_result)

lemma incoming_never_stores_FAILED:
  assumes "incoming_transfer e b w = (res, w')" and "transactions w' k = Some t"
  shows "transactions w k = Some t \<or> status t = COMPLETED"
  using incoming_transfer_result [OF assms(1)] assms(2)
  by (auto split: if_splits)

subsection \<open>Duplicates\<close>

lemma incoming_duplicate:
  assumes "in_toBank b = BANK_PREFIX e" and "transactions w (in_transactionId b) = Some t"
  shows "incoming_transfer e b w =
           (Json 200 (IncomingDone ''Transaction already processed'' (in_transactionId b) (status t)),
            w)"
  using assms by (simp add: incoming_transfer_def incoming_try_def)

lemma incoming_processed:
  assumes "incoming_transfer e b w =
             (Json 200 (IncomingDone ''Transaction processed successfully'' i st), w1)"
  shows "\<exists>r t. accounts w (in_toAccount b) = Some r \<and> status t = COMPLETED \<and>
           transactionId t = in_transactionId b \<and>
           w1 = record_written t (balance_written r (js_add (balance r) (in_amount b)) w)"
  using assms
  by (auto simp: incoming_transfer_def incoming_try_def Let_def
      split: if_splits option.splits sum.splits prod.splits dest!: incoming_accept_result)

text \<open>For a request addressed to this bank whose identifier is in the transaction store,
  the handler answers 200 with the stored status and leaves the world as it is. And once
  a submission was answered \<^verbatim>\<open>'Transaction processed successfully'\<close>, the destination was
  credited once and any later submission of that identifier to this bank is answered
  with the stored status \<^verbatim>\<open>COMPLETED\<close> and changes nothing.\<close>

lemma incoming_stored_identifier_not_reprocessed:
  assumes "in_toBank b = BANK_PREFIX e"
  shows "(transactions w (in_transactionId b) = Some t \<longrightarrow>
            incoming_transfer e b w =
              (Json 200 (IncomingDone ''Transaction already processed'' (in_transactionId b)
                 (status t)), w)) \<and>
         (incoming_transfer e b w =
            (Json 200 (IncomingDone ''Transaction processed successfully'' (in_transactionId b)
               COMPLETED), w1) \<and>
          in_toBank b' = BANK_PREFIX e \<and> in_transactionId b' = in_transactionId b \<longrightarrow>
            (\<exists>r. accounts w (in_toAccount b) = Some r \<and>
                 accounts w1 =
                   (accounts w)(accountNumber r \<mapsto> r\<lparr>balance := js_add (balance r) (in_amount b)\<rparr>)) \<and>
            incoming_transfer e b' w1 =
              (Json 200 (IncomingDone ''Transaction already processed'' (in_transactionId b)
                 COMPLETED), w1))"
proof (intro conjI impI)
  assume "transactions w (in_transactionId b) = Some t"
  then show "incoming_transfer e b w =
      (Json 200 (IncomingDone ''Transaction already processed'' (in_transactionId b) (status t)), w)"
    using assms by (rule incoming_duplicate [rotated])
next
  assume a: "incoming_transfer e b w =
            (Json 200 (IncomingDone ''Transaction processed successfully'' (in_transactionId b)
               COMPLETED), w1) \<and>
          in_toBank b' = BANK_PREFIX e \<and> in_transactionId b' = in_transactionId b"
  then obtain r t where rt: "accounts w (in_toAccount b) = Some r" "status t = COMPLETED"
      "transactionId t = in_transactionId b"
      "w1 = record_written t (balance_written r (js_add (balance r) (in_amount b)) w)"
    using incoming_processed by blast
  show "\<exists>r. accounts w (in_toAccount b) = Some r \<and>
          accounts w1 = (accounts w)(accountNumber r \<mapsto> r\<lparr>balance := js_add (balance r) (in_amount b)\<rparr>)"
    using rt by simp
  have "transactions w1 (in_transactionId b') = Some t"
    using rt a by simp
  then show "incoming_transfer e b' w1 =
      (Json 200 (IncomingDone ''Transaction already processed'' (in_transactionId b) COMPLETED), w1)"
    using incoming_duplicate [of b' e w1 t] a rt(2) by simp
qed

lemma ex_incoming_accepted:
  "incoming_transfer ex_env ex_incoming ex_world =
     (Json 200 (IncomingDone ''Transaction processed successfully'' ''t-9'' COMPLETED),
      ex_world_after_incoming)"
  by (simp add: incoming_defs ledger_defs record_defs example_defs ex_in_record_def
      ex_world_after_incoming_def fun_upd_twist)

lemma ex_incoming_repeated:
  "incoming_transfer ex_env ex_incoming ex_world_after_incoming =
     (Json 200 (IncomingDone ''Transaction already processed'' ''t-9'' COMPLETED),
      ex_world_after_incoming)"
  by (simp add: incoming_defs example_defs ex_in_record_def ex_world_after_incoming_def)

text \<open>
  \<^bold>\<open>C4\<close> Incoming idempotency, at two concrete pairs of submissions. The duplicate
  check looks for the record, and the record is written after the credit, so a delivery
  whose record is not written is not seen by the check. (i) The request \<open>ex_incoming\<close>
  (30 to \<^verbatim>\<open>OVE-2\<close>, identifier \<^verbatim>\<open>t-9\<close>) is delivered while the database refuses the write
  of the record: the account is credited, the answer is 500, nothing is stored under
  \<^verbatim>\<open>t-9\<close>. The same request is delivered again with every write accepted: it is
  processed, answered \<^verbatim>\<open>'Transaction processed successfully'\<close>, and credited again. After
  two submissions of one identifier the account holds 60, with one record of 30, and the
  log shows two balance writes. (ii) The request \<open>ex_incoming_too_large\<close> is delivered
  twice with every write accepted: both deliveries are answered 500, the account holds
  4000000 and no record exists.
\<close>

theorem incoming_redelivery_credits_again:
  "in_transactionId ex_incoming = ''t-9'' \<and>
   transactions ex_world ''t-9'' = None \<and>
   map_option balance (accounts ex_world ''OVE-2'') = Some 0 \<and>
   incoming_transfer ex_env_record_refused ex_incoming ex_world =
     (Json 500 (ErrorBody ''TRANSACTION_PROCESSING_ERROR'' ''Failed to process transaction''
        (Some ''t-9'')),
      balance_written ex_bob 30 ex_world) \<and>
   transactions (balance_written ex_bob 30 ex_world) ''t-9'' = None \<and>
   fst (incoming_transfer ex_env ex_incoming (balance_written ex_bob 30 ex_world)) =
     Json 200 (IncomingDone ''Transaction processed successfully'' ''t-9'' COMPLETED) \<and>
   map_option balance
     (accounts (snd (incoming_transfer ex_env ex_incoming (balance_written ex_bob 30 ex_world)))
        ''OVE-2'') = Some 60 \<and>
   map_option amount
     (transactions (snd (incoming_transfer ex_env ex_incoming (balance_written ex_bob 30 ex_world)))
        ''t-9'') = Some 30 \<and>
   map step_of (new_effects ex_world
      (snd (incoming_transfer ex_env ex_incoming (balance_written ex_bob 30 ex_world)))) =
     [WriteBalance, WriteBalance, WriteTransaction COMPLETED] \<and>
   in_transactionId ex_incoming_too_large = ''t-9'' \<and>
   fst (incoming_transfer ex_env ex_incoming_too_large
          (snd (incoming_transfer ex_env ex_incoming_too_large ex_world))) =
     Json 500 (ErrorBody ''TRANSACTION_PROCESSING_ERROR'' ''Failed to process transaction''
        (Some ''t-9'')) \<and>
   map_option balance
     (accounts (snd (incoming_transfer ex_env ex_incoming_too_large
          (snd (incoming_transfer ex_env ex_incoming_too_large ex_world)))) ''OVE-2'') =
     Some 4000000 \<and>
   transactions (snd (incoming_transfer ex_env ex_incoming_too_large
          (snd (incoming_transfer ex_env ex_incoming_too_large ex_world)))) ''t-9'' = None"
  by (simp add: incoming_defs ledger_defs record_defs example_defs balance_written_def
      new_effects_def ex_env_record_refused_def ex_incoming_too_large_def)

subsection \<open>Acceptance\<close>

text \<open>
  \<^bold>\<open>C5\<close> Acceptance as one unit, at a concrete input. Bank \<^verbatim>\<open>ABC\<close> sends 2000000
  to account \<^verbatim>\<open>OVE-2\<close>, signed over exactly this payload; the destination bank is this
  bank, the identifier is new, the signature verifies, the account exists and its
  currency matches: no check rejects the request. The handler credits the account and
  then fails to save the record, whose schema caps the amount at 1000000; it answers
  500. The balance went from 0 to 2000000 and no record exists. A second delivery of
  the same request credits the account again.
\<close>

theorem incoming_credits_without_record:
  "verifySignature ex_env (ex_in_payload\<lparr>pl_amount := 2000000\<rparr>)
     (in_signature ex_incoming_too_large) (in_fromBank ex_incoming_too_large) = Inr True \<and>
   incoming_transfer ex_env ex_incoming_too_large ex_world =
     (Json 500 (ErrorBody ''TRANSACTION_PROCESSING_ERROR'' ''Failed to process transaction''
        (Some ''t-9'')),
      balance_written ex_bob 2000000 ex_world) \<and>
   map_option balance (accounts (balance_written ex_bob 2000000 ex_world) ''OVE-2'') = Some 2000000 \<and>
   transactions (balance_written ex_bob 2000000 ex_world) ''t-9'' = None \<and>
   incoming_transfer ex_env ex_incoming_too_large (balance_written ex_bob 2000000 ex_world) =
     (Json 500 (ErrorBody ''TRANSACTION_PROCESSING_ERROR'' ''Failed to process transaction''
        (Some ''t-9'')),
      balance_written (ex_bob\<lparr>balance := 2000000\<rparr>) 4000000
        (balance_written ex_bob 2000000 ex_world))"
  by (simp add: incoming_defs ledger_defs record_defs example_defs balance_written_def
      ex_incoming_too_large_def)

section \<open>The active flag\<close>

lemma set_active_simps [simp]:
  "accountNumber (set_active f a) = accountNumber a"
  "user (set_active f a) = user a"
  "acct_currency (set_active f a) = acct_currency a"
  "balance (set_active f a) = balance a"
  "set_active f (a\<lparr>balance := v\<rparr>) = (set_active f a)\<lparr>balance := v\<rparr>"
  by (simp_all add: set_active_def)

lemma with_active_simps [simp]:
  "accounts (with_active f w) k = map_option (set_active f) (accounts w k)"
  "transactions (with_active f w) = transactions w"
  "io_log (with_active f w) = io_log w"
  by (simp_all add: with_active_def)

lemma with_active_update:
  "with_active f (w\<lparr>accounts := (accounts w)(k \<mapsto> a), io_log := l\<rparr>) =
   (with_active f w)\<lparr>accounts := (accounts (with_active f w))(k \<mapsto> set_active f a),
                      io_log := l\<rparr>"
  by (auto simp: with_active_def fun_eq_iff)

lemma with_active_transactions:
  "with_active f (w\<lparr>transactions := m, io_log := l\<rparr>) =
   (with_active f w)\<lparr>transactions := m, io_log := l\<rparr>"
  by (simp add: with_active_def)

lemma with_active_log:
  "with_active f (w\<lparr>io_log := l\<rparr>) = (with_active f w)\<lparr>io_log := l\<rparr>"
  by (simp add: with_active_def)

lemma hasSufficientFunds_active [simp]:
  "hasSufficientFunds (set_active f a) amt = hasSufficientFunds a amt"
  by (simp add: hasSufficientFunds_def)

lemma debit_active:
  "debit accepted (set_active f this) amt (with_active f w) =
     (case debit accepted this amt w of
        (r, this', w') \<Rightarrow> (r, set_active f this', with_active f w'))"
  by (simp add: debit_def save_account_def Let_def with_active_update)

lemma credit_active:
  "credit accepted (set_active f this) amt (with_active f w) =
     (case credit accepted this amt w of
        (r, this', w') \<Rightarrow> (r, set_active f this', with_active f w'))"
  by (simp add: credit_def save_account_def Let_def with_active_update)

lemma save_transaction_active:
  "save_transaction accepted t (with_active f w) =
     (case save_transaction accepted t w of (r, t', w') \<Rightarrow> (r, t', with_active f w'))"
  by (auto simp: save_transaction_def Let_def with_active_transactions)

lemma markCompleted_active:
  "markCompleted accepted t (with_active f w) =
     (case markCompleted accepted t w of (r, t', w') \<Rightarrow> (r, t', with_active f w'))"
  by (simp add: markCompleted_def updateStatus_def save_transaction_active)

lemma markFailed_active:
  "markFailed accepted t c m (with_active f w) =
     (case markFailed accepted t c m w of (r, t', w') \<Rightarrow> (r, t', with_active f w'))"
  by (simp add: markFailed_def updateStatus_def save_transaction_active)

lemma markInProgress_active:
  "markInProgress accepted t (with_active f w) =
     (case markInProgress accepted t w of (r, t', w') \<Rightarrow> (r, t', with_active f w'))"
  by (simp add: markInProgress_def updateStatus_def save_transaction_active)

lemma internal_process_active:
  "internal_process e (set_active f s) (set_active f r) t amt (with_active f w) =
     apsnd (with_active f) (internal_process e s r t amt w)"
  by (simp add: internal_process_def debit_active credit_active markCompleted_active
      split: prod.splits sum.splits)

lemma internal_transfer_active:
  "internal_transfer e uid uuid b (with_active f w) =
     apsnd (with_active f) (internal_transfer e uid uuid b w)"
  by (simp add: internal_transfer_def internal_process_active split: option.splits)

lemma external_catch_active:
  "external_catch e err (set_active f s) t amt (with_active f w) =
     apsnd (with_active f) (external_catch e err s t amt w)"
  by (simp add: external_catch_def credit_active markFailed_active split: prod.splits sum.splits)

lemma external_rejected_active:
  "external_rejected e c rb (set_active f s) t amt (with_active f w) =
     apsnd (with_active f) (external_rejected e c rb s t amt w)"
  by (simp add: external_rejected_def credit_active markFailed_active external_catch_active
      split: prod.splits sum.splits relay_body.splits option.splits)

lemma external_dispatch_active:
  "external_dispatch e pl sig (set_active f s) t amt (with_active f w) =
     apsnd (with_active f) (external_dispatch e pl sig s t amt w)"
proof -
  have l: "(with_active f w)\<lparr>io_log := io_log w @ [RelayPost pl sig]\<rparr> =
           with_active f (w\<lparr>io_log := io_log w @ [RelayPost pl sig]\<rparr>)"
    by (simp add: with_active_log)
  show ?thesis
    by (simp add: external_dispatch_def Let_def l external_rejected_active external_catch_active
        split: relay_response.splits relay_body.splits option.splits)
qed

lemma external_process_active:
  "external_process e now b (set_active f s) t (with_active f w) =
     apsnd (with_active f) (external_process e now b s t w)"
  by (simp add: external_process_def Let_def save_transaction_active markInProgress_active
      debit_active external_dispatch_active
      split: prod.splits sum.splits)

lemma external_transfer_active:
  "external_transfer e uid uuid now b (with_active f w) =
     apsnd (with_active f) (external_transfer e uid uuid now b w)"
  by (simp add: external_transfer_def external_process_active split: option.splits)

lemma incoming_accept_active:
  "incoming_accept e b (set_active f r) (with_active f w) =
     apsnd (with_active f) (incoming_accept e b r w)"
  by (simp add: incoming_accept_def credit_active markCompleted_active
      split: prod.splits sum.splits)

lemma incoming_try_active:
  "incoming_try e b (with_active f w) = apsnd (with_active f) (incoming_try e b w)"
  by (auto simp: incoming_try_def Let_def incoming_accept_active
      split: option.splits sum.splits)

lemma incoming_transfer_active:
  "incoming_transfer e b (with_active f w) = apsnd (with_active f) (incoming_transfer e b w)"
  by (simp add: incoming_transfer_def incoming_try_active split: prod.splits sum.splits)

text \<open>
  \<^bold>\<open>C10\<close> The active flag of an account is never consulted by the settlement paths.
  Give the accounts any other active flags (\<open>f\<close> chooses the flag of each account
  number): \<open>debit\<close> and \<open>credit\<close> return the same outcome and the same balances, and the
  three handlers return the same response and the same world, up to those flags. So a
  deactivated account sends and receives funds like an active one (the witness: an
  internal transfer between two deactivated accounts answers 201).
\<close>

theorem active_flag_never_consulted:
  "debit accepted (set_active f this) amt (with_active f w) =
     (case debit accepted this amt w of
        (r, this', w') \<Rightarrow> (r, set_active f this', with_active f w')) \<and>
   credit accepted (set_active f this) amt (with_active f w) =
     (case credit accepted this amt w of
        (r, this', w') \<Rightarrow> (r, set_active f this', with_active f w')) \<and>
   internal_transfer e uid uuid ib (with_active f w) =
     apsnd (with_active f) (internal_transfer e uid uuid ib w) \<and>
   external_transfer e uid uuid now eb (with_active f w) =
     apsnd (with_active f) (external_transfer e uid uuid now eb w) \<and>
   incoming_transfer e inb (with_active f w) =
     apsnd (with_active f) (incoming_transfer e inb w)"
  by (simp only: debit_active credit_active internal_transfer_active external_transfer_active
      incoming_transfer_active simp_thms)

theorem active_flag_never_consulted_witness:
  "isActive (set_active (\<lambda>k. False) ex_alice) = False \<and>
   isActive (set_active (\<lambda>k. False) ex_bob) = False \<and>
   fst (internal_transfer ex_env ''u1'' ''t-1'' ex_internal (with_active (\<lambda>k. False) ex_world)) =
     fst (internal_transfer ex_env ''u1'' ''t-1'' ex_internal ex_world) \<and>
   map_option balance
     (accounts (snd (internal_transfer ex_env ''u1'' ''t-1'' ex_internal
        (with_active (\<lambda>k. False) ex_world))) ''OVE-2'') = Some 50"
  using active_flag_never_consulted [of True "\<lambda>k. False" ex_alice 1 ex_world ex_env "''u1''"
      "''t-1''" ex_internal "''now''" ex_external ex_incoming]
  by (simp add: set_active_def internal_transfer_def internal_process_def validate_internal_def
      ledger_defs record_defs example_defs)

end
